theory Spec2Isabelle
  imports Complex_Main "HOL-Library.Sublist"
begin

section \<open>Strings as the chat backend uses them\<close>

text \<open>
  The backend (\<^verbatim>\<open>app.py\<close>) works on Python \<^verbatim>\<open>str\<close> values. A \<^typ>\<open>string\<close> here is a
  list of characters, each standing for one code point in the range U+0000 .. U+00FF;
  \<^term>\<open>length\<close> therefore counts what Python's \<^verbatim>\<open>len\<close> counts on such text. The three
  string primitives the backend relies on are written out for that range:
  \<^verbatim>\<open>str.lower\<close>, \<^verbatim>\<open>str.strip\<close> (no argument) and the character class \<^verbatim>\<open>[a-z0-9]\<close>.
\<close>

definition nl :: string where
  "nl = [CHR 0x0A]"

definition isspace :: "char \<Rightarrow> bool" where
  \<comment> \<open>\<^verbatim>\<open>str.isspace\<close> on one code point below U+0100: TAB, LF, VT, FF, CR, FS, GS, RS, US,
      SPACE, NEL and NO-BREAK SPACE.\<close>
  "isspace c =
     (let n = (of_char c :: nat)
      in (9 \<le> n \<and> n \<le> 13) \<or> (28 \<le> n \<and> n \<le> 32) \<or> n = 133 \<or> n = 160)"

definition lower_char :: "char \<Rightarrow> char" where
  \<comment> \<open>\<^verbatim>\<open>str.lower\<close> on one code point below U+0100: A-Z and the Latin-1 capitals
      U+00C0 .. U+00DE (without the multiplication sign U+00D7) move up by 32.\<close>
  "lower_char c =
     (let n = (of_char c :: nat)
      in if (65 \<le> n \<and> n \<le> 90) \<or> (192 \<le> n \<and> n \<le> 222 \<and> n \<noteq> 215)
         then char_of (n + 32) else c)"

definition lower :: "string \<Rightarrow> string" where
  "lower s = map lower_char s"

definition lstrip :: "string \<Rightarrow> string" where
  "lstrip s = dropWhile isspace s"

definition rstrip :: "string \<Rightarrow> string" where
  "rstrip s = rev (dropWhile isspace (rev s))"

definition strip :: "string \<Rightarrow> string" where
  "strip s = rstrip (lstrip s)"

definition is_az09 :: "char \<Rightarrow> bool" where
  \<comment> \<open>the regular-expression class \<^verbatim>\<open>[a-z0-9]\<close>\<close>
  "is_az09 c =
     (let n = (of_char c :: nat)
      in (97 \<le> n \<and> n \<le> 122) \<or> (48 \<le> n \<and> n \<le> 57))"

text \<open>
  \<^verbatim>\<open>re.findall(r"[a-z0-9]+", text)\<close>: scan from the left; at a character of the class
  take the longest run of class characters as one match and resume behind it; at any
  other character move on by one.
\<close>

function findall_az09 :: "string \<Rightarrow> string list" where
  "findall_az09 [] = []"
| "findall_az09 (c # cs) =
     (if is_az09 c
      then (c # takeWhile is_az09 cs) # findall_az09 (dropWhile is_az09 cs)
      else findall_az09 cs)"
  by pat_completeness auto
termination
  by (relation "measure length") (auto simp: less_Suc_eq_le length_dropWhile_le)

text \<open>Python's \<^verbatim>\<open>x or ""\<close> on an optional string.\<close>

definition or_empty :: "string option \<Rightarrow> string" where
  "or_empty x = (case x of None \<Rightarrow> [] | Some s \<Rightarrow> s)"

definition py_str :: "string option \<Rightarrow> string" where
  \<comment> \<open>how an f-string formats a string or \<^verbatim>\<open>None\<close>\<close>
  "py_str v = (case v of None \<Rightarrow> ''None'' | Some s \<Rightarrow> s)"

section \<open>Topic tracker: \<^verbatim>\<open>extract_topic\<close>\<close>

definition question_starts :: "string list" where
  "question_starts =
     [''who'', ''what'', ''which'', ''when'', ''where'', ''why'', ''how'', ''give'',
      ''tell'', ''show'', ''explain'', ''owner'', ''ceo'', ''chairman'', ''md'',
      ''director'']"

definition extract_topic :: "string \<Rightarrow> string option \<Rightarrow> string option" where
  "extract_topic user_msg last_topic =
     (if user_msg = [] then last_topic
      else
        let text = lower (strip user_msg);
            tokens = findall_az09 text
        in if tokens = [] then last_topic
           else if hd tokens \<in> set question_starts then last_topic
           else if length tokens \<le> 4 then Some text
           else last_topic)"


text \<open>
  The topic tracker as the specification words it (section 4.1), for comparison with
  \<^const>\<open>extract_topic\<close>: an empty or whitespace-only message keeps the topic; the
  message is tokenised into lowercase alphanumeric tokens, every other character being a
  separator; no token, or a first token among the question words, keeps the topic; at
  most four tokens make the entire lowercase message text the new topic; anything longer
  keeps the topic.
\<close>

fun split_sep :: "(char \<Rightarrow> bool) \<Rightarrow> string \<Rightarrow> string list" where
  "split_sep sep [] = [[]]"
| "split_sep sep (c # cs) =
     (if sep c then [] # split_sep sep cs
      else (case split_sep sep cs of w # ws \<Rightarrow> (c # w) # ws | [] \<Rightarrow> [[c]]))"

definition spec_tokens :: "string \<Rightarrow> string list" where
  "spec_tokens s = filter (\<lambda>w. w \<noteq> []) (split_sep (\<lambda>c. \<not> is_az09 c) s)"

definition update_topic_spec :: "string \<Rightarrow> string option \<Rightarrow> string option" where
  "update_topic_spec user_message previous_topic =
     (if list_all isspace user_message then previous_topic
      else
        let tokens = spec_tokens (lower user_message)
        in if tokens = [] then previous_topic
           else if hd tokens \<in> set question_starts then previous_topic
           else if length tokens \<le> 4 then Some (lower user_message)
           else previous_topic)"

section \<open>Python slices and joins\<close>

definition py_slice_to :: "int \<Rightarrow> 'a list \<Rightarrow> 'a list" where
  \<comment> \<open>\<^verbatim>\<open>xs[:n]\<close>: a negative \<open>n\<close> counts from the end\<close>
  "py_slice_to n xs =
     (if n < 0 then take (nat (int (length xs) + n)) xs else take (nat n) xs)"

definition py_slice_from :: "int \<Rightarrow> 'a list \<Rightarrow> 'a list" where
  \<comment> \<open>\<^verbatim>\<open>xs[k:]\<close>: a negative \<open>k\<close> counts from the end\<close>
  "py_slice_from k xs =
     (if k < 0 then drop (nat (int (length xs) + k)) xs else drop (nat k) xs)"

fun join :: "string \<Rightarrow> string list \<Rightarrow> string" where
  "join sep [] = []"
| "join sep [x] = x"
| "join sep (x # y # ys) = x @ sep @ join sep (y # ys)"

section \<open>Session memory builder: \<^verbatim>\<open>build_session_memory_sections\<close>\<close>

text \<open>
  A section is the dictionary the chat handlers append after an answer. Its answer is what
  the generation provider returned as \<^verbatim>\<open>message.content\<close>: a string, or \<^verbatim>\<open>None\<close>.
\<close>

record "section" =
  timestamp :: string
  query :: string
  answer :: "string option"

definition mentions :: "string \<Rightarrow> section \<Rightarrow> bool" where
  \<comment> \<open>\<^verbatim>\<open>normalized_topic in q or normalized_topic in a\<close>, both lowercased, with
      \<^verbatim>\<open>a = (s.get("answer") or "").lower()\<close>\<close>
  "mentions normalized_topic s =
     (sublist normalized_topic (lower (query s)) \<or>
      sublist normalized_topic (lower (or_empty (answer s))))"

definition render_section :: "section \<Rightarrow> string" where
  "render_section s =
     ''['' @ timestamp s @ ''] Q: '' @ query s @ nl @ ''A: '' @ py_str (answer s)"

definition render_memory :: "section list \<Rightarrow> string" where
  "render_memory kept = join (nl @ nl) (map render_section kept)"

definition build_session_memory_sections ::
  "section list \<Rightarrow> string option \<Rightarrow> int \<Rightarrow> int \<Rightarrow> string" where
  "build_session_memory_sections sections current_topic limit max_chars =
     (if sections = [] then []
      else
        let normalized_topic = strip (lower (or_empty current_topic));
            filtered = (if normalized_topic \<noteq> []
                        then filter (mentions normalized_topic) sections else []);
            filtered = (if filtered = [] then py_slice_from (- limit) sections
                        else py_slice_from (- limit) filtered);
            memory_text = render_memory filtered
        in py_slice_to max_chars memory_text)"

text \<open>The last \<open>n\<close> entries of a sequence, as the specification speaks of them.\<close>

definition last_n :: "nat \<Rightarrow> 'a list \<Rightarrow> 'a list" where
  "last_n n xs = drop (length xs - n) xs"

section \<open>Retrieved documents, retrieval gate and prompt assembler\<close>

text \<open>
  A retrieved document is the dictionary \<^verbatim>\<open>search_azure\<close> builds: \<^verbatim>\<open>doc_id\<close>, \<^verbatim>\<open>text\<close>,
  \<^verbatim>\<open>meta\<close> and \<^verbatim>\<open>score\<close>. Of \<^verbatim>\<open>meta\<close> only string-or-\<^verbatim>\<open>None\<close> values matter here: a key
  may be absent (\<open>None\<close>), present with value \<^verbatim>\<open>None\<close> (\<open>Some None\<close>) or present with a
  string. A score is the exact value of a finite double, a rational number; comparing
  two doubles involves no rounding.
\<close>

record doc =
  doc_id :: string
  "text" :: string
  meta :: "string \<rightharpoonup> string option"
  score :: rat

datatype role = System | User | Assistant

text \<open>
  A message is a dictionary with a role and a content, and in the named conversations a
  \<^verbatim>\<open>meta\<close> dictionary. The content of a message sent to the generation provider is
  always a string; the content of a message kept in a conversation may also be \<^verbatim>\<open>None\<close>,
  which is what the provider may return as an answer.
\<close>

record 'c message =
  role :: role
  content :: 'c
  msg_meta :: "(string \<times> string) list option"

type_synonym prompt_message = "string message"
type_synonym stored_message = "string option message"

definition relevance_threshold :: rat where
  \<comment> \<open>the double that the literal \<^verbatim>\<open>0.35\<close> denotes\<close>
  "relevance_threshold = 3152519739159347 / 9007199254740992"

definition relevant_docs :: "doc list \<Rightarrow> doc list" where
  "relevant_docs retrieved_docs =
     filter (\<lambda>r. relevance_threshold \<le> score r) retrieved_docs"

definition context_chunk :: "doc \<Rightarrow> string" where
  \<comment> \<open>\<^verbatim>\<open>f"Source: {r['meta'].get('source', r['doc_id'])}\n{r['text']}"\<close>\<close>
  "context_chunk r =
     ''Source: '' @
     py_str (case meta r ''source'' of None \<Rightarrow> Some (doc_id r) | Some v \<Rightarrow> v) @
     nl @ text r"

definition context_text :: "doc list \<Rightarrow> string" where
  "context_text retrieved_docs =
     (let relevant = relevant_docs retrieved_docs
      in if relevant \<noteq> []
         then py_slice_to 6000
                (join (nl @ nl) (map context_chunk (filter (\<lambda>r. text r \<noteq> []) relevant)))
         else [])"

definition system_prompt :: string where
  "system_prompt =
     ''You are SageAlpha, a financial assistant powered by SageAlpha.ai.'' @ nl @
     ''Use this logic:'' @ nl @
     ''1. If the Context contains useful information, use it to answer.'' @ nl @
     ''2. If the Context is empty or not relevant, answer using your own knowledge.'' @ nl @
     ''3. Be precise and financially accurate.'' @ nl @
     ''4. Respond in clear plain text only. Do not use markdown formatting, asterisks (*),'' @ nl @
     ''   hash symbols (#), bullet lists, or code blocks.'' @ nl"

definition build_hybrid_messages ::
  "string \<Rightarrow> doc list \<Rightarrow> prompt_message list option \<Rightarrow> prompt_message list" where
  "build_hybrid_messages user_msg retrieved_docs extra_system_msgs =
     [\<lparr>role = System, content = system_prompt, msg_meta = None\<rparr>] @
     (case extra_system_msgs of
        None \<Rightarrow> []
      | Some extra \<Rightarrow> if extra \<noteq> [] then extra else []) @
     [\<lparr>role = System, content = ''Context:'' @ nl @ context_text retrieved_docs,
       msg_meta = None\<rparr>] @
     [\<lparr>role = User, content = user_msg, msg_meta = None\<rparr>]"

text \<open>
  Both chat handlers turn the session memory into the extra system messages in the same
  way: none for an empty memory, one labelled message otherwise.
\<close>

definition memory_messages :: "string \<Rightarrow> prompt_message list" where
  "memory_messages session_memory_text =
     (if session_memory_text \<noteq> []
      then [\<lparr>role = System,
             content = ''Session memory (previous Q&A sections):'' @ nl @ session_memory_text,
             msg_meta = None\<rparr>]
      else [])"

section \<open>Requests, responses and the environment of one request\<close>

text \<open>
  A handler reads \<^verbatim>\<open>request.get_json(silent=True) or {}\<close> and then looks keys up with
  \<^verbatim>\<open>.get\<close>. The JSON a client may send is any value, so every value is put into the class
  that decides what the code does with it.

  The body is one of: no JSON at all or a falsy value (\<^verbatim>\<open>null\<close>, \<^verbatim>\<open>false\<close>, \<^verbatim>\<open>0\<close>, \<^verbatim>\<open>""\<close>, \<^verbatim>\<open>[]\<close>,
  \<^verbatim>\<open>{}\<close>), for which the handler works on \<^verbatim>\<open>{}\<close>; a non-empty object; any other truthy
  value (a non-empty array or string, a non-zero number, \<^verbatim>\<open>true\<close>), on which the first
  \<^verbatim>\<open>.get\<close> raises \<^verbatim>\<open>AttributeError\<close>.

  A text field (\<^verbatim>\<open>message\<close>, \<^verbatim>\<open>q\<close>, \<^verbatim>\<open>title\<close>) is read as \<^verbatim>\<open>(payload.get(key) or "").strip()\<close>.
  Its value is falsy (the key is missing, or the value is \<^verbatim>\<open>null\<close>, \<^verbatim>\<open>false\<close>, \<^verbatim>\<open>0\<close>, \<^verbatim>\<open>""\<close>,
  \<^verbatim>\<open>[]\<close> or \<^verbatim>\<open>{}\<close>), a string, or another truthy value, which has no \<^verbatim>\<open>strip\<close> and raises
  \<^verbatim>\<open>AttributeError\<close>.

  The field \<^verbatim>\<open>session_id\<close> is used in \<^verbatim>\<open>session_id and session_id in SESSIONS\<close>. Its value is
  falsy, a string, another hashable truthy value (a non-zero number or \<^verbatim>\<open>true\<close>, never a
  key of \<^verbatim>\<open>SESSIONS\<close>, whose keys are strings), or an unhashable truthy value (a non-empty
  array or object), on which the membership test raises \<^verbatim>\<open>TypeError\<close>.

  \<^verbatim>\<open>int(payload.get("top_k", 5))\<close> yields 5 for a missing key, an integer for a value \<^verbatim>\<open>int\<close>
  accepts, and raises with some text otherwise.
\<close>

datatype text_field = FalsyValue | StrValue string | OtherValue

datatype id_field = IdFalsy | IdStr string | IdHashable | IdUnhashable

datatype top_k_field = TopKMissing | TopKValue int | TopKBad string

record payload =
  p_message :: text_field
  p_q :: text_field
  p_session_id :: id_field
  p_title :: text_field
  p_top_k :: top_k_field

datatype request_body = NoPayload | Payload payload | NonObjectPayload

text \<open>
  An exception that leaves a handler is answered by the global error handler with status
  500. The exceptions are: \<^verbatim>\<open>AttributeError\<close> and \<^verbatim>\<open>TypeError\<close> from the reads above, and the
  ones raised with some text by \<^verbatim>\<open>int\<close>, by the retrieval and by the generation call.
\<close>

datatype failure = AttributeError | TypeError | Raised string

definition get_json_or_empty :: "request_body \<Rightarrow> failure + payload" where
  \<comment> \<open>the payload the \<^verbatim>\<open>.get\<close> calls of a handler read, or the exception of the first of
      them\<close>
  "get_json_or_empty body =
     (case body of
        NoPayload \<Rightarrow> Inr \<lparr>p_message = FalsyValue, p_q = FalsyValue, p_session_id = IdFalsy,
                         p_title = FalsyValue, p_top_k = TopKMissing\<rparr>
      | Payload p \<Rightarrow> Inr p
      | NonObjectPayload \<Rightarrow> Inl AttributeError)"

definition stripped_text :: "text_field \<Rightarrow> failure + string" where
  \<comment> \<open>\<^verbatim>\<open>(value or "").strip()\<close>\<close>
  "stripped_text f =
     (case f of FalsyValue \<Rightarrow> Inr [] | StrValue s \<Rightarrow> Inr (strip s) | OtherValue \<Rightarrow> Inl AttributeError)"

definition parse_top_k :: "top_k_field \<Rightarrow> string + int" where
  "parse_top_k f =
     (case f of TopKMissing \<Rightarrow> Inr 5 | TopKValue n \<Rightarrow> Inr n | TopKBad err \<Rightarrow> Inl err)"

text \<open>
  A message text that is empty or missing, whitespace-only included: what the validation
  of the handlers is about.
\<close>

definition blank_text :: "text_field \<Rightarrow> bool" where
  "blank_text f =
     (case f of FalsyValue \<Rightarrow> True | StrValue s \<Rightarrow> list_all isspace s | OtherValue \<Rightarrow> False)"

subsection \<open>Retrieval: \<^verbatim>\<open>search_azure\<close>\<close>

text \<open>
  A row is one result \<^verbatim>\<open>r\<close> of the search service, read with \<^verbatim>\<open>r.get\<close>. The three content
  fields hold nothing, a string or a list of strings; the storage path, the source and
  the id hold a string or nothing; the score holds a number, is missing, or holds
  something \<^verbatim>\<open>float\<close> rejects with some text. The three entity fields (\<^verbatim>\<open>people\<close>,
  \<^verbatim>\<open>organizations\<close>, \<^verbatim>\<open>locations\<close>) are only copied into \<^verbatim>\<open>meta\<close> and never read again; rows
  here carry none, so \<^verbatim>\<open>meta\<close> holds \<^verbatim>\<open>None\<close> under those keys.

  The service either raises on \<^verbatim>\<open>search_client.search(...)\<close>, or returns a result whose
  iteration yields rows and then ends, or raises with some text after the rows.
\<close>

datatype content_value = NoContent | TextContent string | ListContent "string list"

datatype score_field = ScoreMissing | ScoreNumber rat | ScoreBad string

record search_row =
  r_merged_content :: content_value
  r_content :: content_value
  r_imageCaption :: content_value
  r_metadata_storage_path :: "string option"
  r_source :: "string option"
  r_id :: "string option"
  r_search_score :: score_field

datatype search_outcome = SearchRaises string | Results "search_row list" "string option"

text \<open>
  What lies outside the backend is the environment of a request: the search client (\<open>None\<close>
  when the configuration is missing), the generation provider behind
  \<^verbatim>\<open>client.chat.completions.create\<close> (it returns the content of the first choice, a string or
  \<^verbatim>\<open>None\<close>, as \<open>Inr\<close>, or an exception is raised inside the \<^verbatim>\<open>try\<close>, \<open>Inl\<close> with its text), the
  identifier \<^verbatim>\<open>uuid4()\<close> hands out and the two readings of the clock. Each handler returns,
  besides its response and the new state, the calls it made to \<^verbatim>\<open>search_azure\<close> and to the
  generation provider, in order.
\<close>

record env =
  search_client :: "(string \<Rightarrow> int \<Rightarrow> search_outcome) option"
  completions_create :: "prompt_message list \<Rightarrow> string + string option"
  uuid4 :: string
  utcnow_created :: string
  utcnow_answered :: string

definition py_or :: "string option \<Rightarrow> string option \<Rightarrow> string option" where
  \<comment> \<open>\<^verbatim>\<open>a or b\<close> on strings and \<^verbatim>\<open>None\<close>: \<open>a\<close> if it is a non-empty string, else \<open>b\<close>\<close>
  "py_or a b = (case a of Some s \<Rightarrow> if s \<noteq> [] then a else b | None \<Rightarrow> b)"

definition content_part :: "content_value \<Rightarrow> string list" where
  \<comment> \<open>one round of the loop over the content fields: a list is joined with blanks, a
      non-empty value is appended\<close>
  "content_part val =
     (case val of
        NoContent \<Rightarrow> []
      | TextContent s \<Rightarrow> if s \<noteq> [] then [s] else []
      | ListContent xs \<Rightarrow> if join '' '' xs \<noteq> [] then [join '' '' xs] else [])"

definition doc_of_row :: "search_row \<Rightarrow> string + doc" where
  "doc_of_row r =
     (let content_parts = content_part (r_merged_content r) @ content_part (r_content r) @
                          content_part (r_imageCaption r);
          text0 = join nl content_parts;
          meta0 = [''source'' \<mapsto> py_or (r_metadata_storage_path r) (r_source r),
                   ''people'' \<mapsto> None, ''organizations'' \<mapsto> None, ''locations'' \<mapsto> None];
          doc_id0 = or_empty (py_or (py_or (r_id r) (r_metadata_storage_path r)) (Some []))
      in case r_search_score r of
           ScoreBad err \<Rightarrow> Inl err
         | ScoreMissing \<Rightarrow> Inr \<lparr>doc_id = doc_id0, text = text0, meta = meta0, score = 0\<rparr>
         | ScoreNumber x \<Rightarrow> Inr \<lparr>doc_id = doc_id0, text = text0, meta = meta0, score = x\<rparr>)"

fun docs_of_rows :: "search_row list \<Rightarrow> string + doc list" where
  "docs_of_rows [] = Inr []"
| "docs_of_rows (r # rs) =
     (case doc_of_row r of
        Inl err \<Rightarrow> Inl err
      | Inr d \<Rightarrow> (case docs_of_rows rs of Inl err \<Rightarrow> Inl err | Inr ds \<Rightarrow> Inr (d # ds)))"

definition search_azure :: "env \<Rightarrow> string \<Rightarrow> int \<Rightarrow> string + doc list" where
  \<comment> \<open>\<open>Inr\<close> the list returned, \<open>Inl\<close> the text of an exception that leaves the function:
      only the call of \<^verbatim>\<open>search\<close> is inside the \<^verbatim>\<open>try\<close>\<close>
  "search_azure e query_text top_k =
     (case search_client e of
        None \<Rightarrow> Inr []
      | Some search \<Rightarrow>
          if query_text = [] then Inr []
          else
            (case search query_text top_k of
               SearchRaises err \<Rightarrow> Inr []
             | Results rows stop \<Rightarrow>
                 (case docs_of_rows rows of
                    Inl err \<Rightarrow> Inl err
                  | Inr output \<Rightarrow> (case stop of None \<Rightarrow> Inr output | Some err \<Rightarrow> Inl err))))"

datatype ext_call = SearchCall string int | CompletionCall "prompt_message list"

record source_entry =
  entry_doc_id :: string
  entry_source :: "string option"
  entry_score :: rat

definition sources_of :: "doc list \<Rightarrow> source_entry list" where
  \<comment> \<open>the \<^verbatim>\<open>sources\<close> comprehension of \<^verbatim>\<open>chat\<close>, \<^verbatim>\<open>chat_session\<close> and \<^verbatim>\<open>query\<close>\<close>
  "sources_of retrieved =
     map (\<lambda>r. \<lparr>entry_doc_id = doc_id r,
                entry_source = (case meta r ''source'' of None \<Rightarrow> None | Some v \<Rightarrow> v),
                entry_score = score r\<rparr>) retrieved"

text \<open>
  The title of a conversation is a string, or the truthy non-string value the create
  route was given and stored as it was.
\<close>

datatype title_value = TitleStr string | TitleOther

record session_container =
  sid :: string
  title :: title_value
  created :: string
  messages :: "stored_message list"
  sections :: "section list"
  current_topic :: string

datatype response =
    BadRequest string
  | NotFound string
  | ServerError failure
  | ChatError string string string
  | ChatOk string "string option" "source_entry list"
  | SessionOk string "string option" "source_entry list"
  | QueryOk string "source_entry list"
  | SessionInfo session_container

text \<open>
  \<open>BadRequest e\<close> is status 400 with \<^verbatim>\<open>{"error": e}\<close>, \<open>NotFound e\<close> status 404,
  \<open>ServerError f\<close> status 500 with the text of the exception \<open>f\<close> (from a handler's own
  \<^verbatim>\<open>except\<close> or from the global error handler); \<open>ChatError id text e\<close> is the status-500
  body of \<^verbatim>\<open>/chat\<close> with its message object and an empty source list;
  \<open>ChatOk id answer sources\<close>, \<open>SessionOk session_id answer sources\<close> and
  \<open>QueryOk answer sources\<close> are the status-200 bodies; \<open>SessionInfo s\<close> is the body
  \<^verbatim>\<open>{"session": s}\<close> of the conversation routes.
\<close>

section \<open>The single ongoing conversation: \<^verbatim>\<open>/chat\<close> and \<^verbatim>\<open>/reset_history\<close>\<close>

text \<open>The Flask session holds three keys, each of which may be absent.\<close>

record flask_session =
  history :: "stored_message list option"
  fs_sections :: "section list option"
  fs_current_topic :: "string option"

definition seed_message :: stored_message where
  \<comment> \<open>The apostrophe of the source text is U+2019, outside the range of the characters
      here; the one character that stands for it is \<open>CHR 0x92\<close>, so that the text has the
      length Python gives it. Nothing reads this character.\<close>
  "seed_message =
     \<lparr>role = System,
      content = Some (''I'' @ [CHR 0x92] @
        ''m SageAlpha, a financial assistant powered by SageAlpha.ai to support your financial decisions.''),
      msg_meta = None\<rparr>"

definition ensure_session :: "flask_session \<Rightarrow> flask_session" where
  \<comment> \<open>the three \<^verbatim>\<open>if ... not in session\<close> of \<^verbatim>\<open>chat\<close>\<close>
  "ensure_session session =
     (let session = (if history session = None
                     then session\<lparr>history := Some [seed_message]\<rparr> else session);
          session = (if fs_sections session = None
                     then session\<lparr>fs_sections := Some []\<rparr> else session);
          session = (if fs_current_topic session = None
                     then session\<lparr>fs_current_topic := Some []\<rparr> else session)
      in session)"

definition chat ::
  "env \<Rightarrow> request_body \<Rightarrow> flask_session \<Rightarrow> flask_session \<times> response \<times> ext_call list" where
  "chat e body session0 =
     (case get_json_or_empty body of
        Inl err \<Rightarrow> (session0, ServerError err, [])
      | Inr payload \<Rightarrow>
     (case stripped_text (p_message payload) of
        Inl err \<Rightarrow> (session0, ServerError err, [])
      | Inr user_msg \<Rightarrow>
         if user_msg = [] then (session0, BadRequest ''Empty message'', [])
         else
           let session1 = ensure_session session0
           in (case (history session1, fs_sections session1) of
                 (Some history0, Some sections0) \<Rightarrow>
                   let last_topic = or_empty (fs_current_topic session1);
                       current_topic = extract_topic user_msg (Some last_topic);
                       history1 = history0 @
                         [\<lparr>role = User, content = Some user_msg, msg_meta = None\<rparr>];
                       session2 = session1\<lparr>fs_current_topic := Some (or_empty current_topic),
                                           history := Some history1\<rparr>;
                       session_memory_text =
                         build_session_memory_sections sections0 current_topic 5 1500;
                       extra_system_msgs = memory_messages session_memory_text
                   in (case parse_top_k (p_top_k payload) of
                         Inl err \<Rightarrow> (session2, ServerError (Raised err), [])
                       | Inr top_k \<Rightarrow>
                      (case search_azure e user_msg top_k of
                         Inl err \<Rightarrow> (session2, ServerError (Raised err), [SearchCall user_msg top_k])
                       | Inr retrieved \<Rightarrow>
                           let msgs = build_hybrid_messages user_msg retrieved
                                        (Some extra_system_msgs);
                               calls = [SearchCall user_msg top_k, CompletionCall msgs]
                           in (case completions_create e msgs of
                                 Inr ai_msg \<Rightarrow>
                                   (session2\<lparr>history := Some (history1 @
                                        [\<lparr>role = Assistant, content = ai_msg, msg_meta = None\<rparr>]),
                                      fs_sections := Some (sections0 @
                                        [\<lparr>timestamp = utcnow_answered e, query = user_msg,
                                          answer = ai_msg\<rparr>])\<rparr>,
                                    ChatOk (uuid4 e) ai_msg (sources_of retrieved), calls)
                               | Inl err \<Rightarrow>
                                   (session2,
                                    ChatError (uuid4 e) (''Backend error: '' @ err) err, calls))))
               | _ \<Rightarrow> (session1, ServerError (Raised ''KeyError''), []))))"

definition reset_history :: "flask_session \<Rightarrow> flask_session" where
  \<comment> \<open>three \<^verbatim>\<open>session.pop(key, None)\<close>\<close>
  "reset_history session =
     session\<lparr>history := None, fs_sections := None, fs_current_topic := None\<rparr>"

definition new_flask_session :: flask_session where
  \<comment> \<open>the session of a client that has sent nothing yet\<close>
  "new_flask_session = \<lparr>history = None, fs_sections = None, fs_current_topic = None\<rparr>"

section \<open>Named conversations: \<^verbatim>\<open>SESSIONS\<close> and \<^verbatim>\<open>/chat_session\<close>\<close>

type_synonym sessions_store = "string \<rightharpoonup> session_container"

definition create_session ::
  "env \<Rightarrow> title_value \<Rightarrow> sessions_store \<Rightarrow> sessions_store \<times> session_container" where
  "create_session e title0 SESSIONS =
     (let s = \<lparr>sid = uuid4 e,
                title = (case title0 of
                           TitleStr t \<Rightarrow> if t \<noteq> [] then TitleStr t else TitleStr ''New chat''
                         | TitleOther \<Rightarrow> TitleOther),
                created = utcnow_created e,
                messages = [], sections = [], current_topic = []\<rparr>
      in (SESSIONS(uuid4 e \<mapsto> s), s))"

definition create_session_route ::
  "env \<Rightarrow> request_body \<Rightarrow> sessions_store \<Rightarrow> sessions_store \<times> response" where
  "create_session_route e body SESSIONS =
     (case get_json_or_empty body of
        Inl err \<Rightarrow> (SESSIONS, ServerError err)
      | Inr data \<Rightarrow>
          let title0 = (case p_title data of
                          FalsyValue \<Rightarrow> TitleStr ''New chat''
                        | StrValue t \<Rightarrow> if t \<noteq> [] then TitleStr t else TitleStr ''New chat''
                        | OtherValue \<Rightarrow> TitleOther);
              (SESSIONS', s) = create_session e title0 SESSIONS
          in (SESSIONS', SessionInfo s))"

definition get_session :: "string \<Rightarrow> sessions_store \<Rightarrow> response" where
  "get_session session_id SESSIONS =
     (case SESSIONS session_id of
        None \<Rightarrow> NotFound ''Session not found''
      | Some s \<Rightarrow> SessionInfo s)"

definition rename_session ::
  "string \<Rightarrow> request_body \<Rightarrow> sessions_store \<Rightarrow> sessions_store \<times> response" where
  "rename_session session_id body SESSIONS =
     (case SESSIONS session_id of
        None \<Rightarrow> (SESSIONS, NotFound ''Session not found'')
      | Some s \<Rightarrow>
          (case get_json_or_empty body of
             Inl err \<Rightarrow> (SESSIONS, ServerError err)
           | Inr data \<Rightarrow>
               (case stripped_text (p_title data) of
                  Inl err \<Rightarrow> (SESSIONS, ServerError err)
                | Inr title0 \<Rightarrow>
                    let s' = (if title0 \<noteq> [] then s\<lparr>title := TitleStr title0\<rparr> else s)
                    in (SESSIONS(session_id \<mapsto> s'), SessionInfo s'))))"

definition ensure_chat_session ::
  "env \<Rightarrow> id_field \<Rightarrow> sessions_store \<Rightarrow>
     failure + (sessions_store \<times> session_container \<times> string)" where
  \<comment> \<open>\<^verbatim>\<open>if session_id and session_id in SESSIONS: ... else: ...\<close>; the result is the
      store, the container \<^verbatim>\<open>s\<close> and the \<^verbatim>\<open>session_id\<close> used from there on, or the
      exception of the membership test\<close>
  "ensure_chat_session e session_id0 SESSIONS =
     (let fresh = (let (SESSIONS', s) = create_session e (TitleStr ''New chat'') SESSIONS
                   in (SESSIONS', s, sid s))
      in case session_id0 of
           IdFalsy \<Rightarrow> Inr fresh
         | IdStr i \<Rightarrow>
             if i \<noteq> []
             then (case SESSIONS i of Some s \<Rightarrow> Inr (SESSIONS, s, i) | None \<Rightarrow> Inr fresh)
             else Inr fresh
         | IdHashable \<Rightarrow> Inr fresh
         | IdUnhashable \<Rightarrow> Inl TypeError)"

definition chat_session ::
  "env \<Rightarrow> request_body \<Rightarrow> sessions_store \<Rightarrow> sessions_store \<times> response \<times> ext_call list" where
  "chat_session e body SESSIONS =
     (case get_json_or_empty body of
        Inl err \<Rightarrow> (SESSIONS, ServerError err, [])
      | Inr payload \<Rightarrow>
     (case stripped_text (p_message payload) of
        Inl err \<Rightarrow> (SESSIONS, ServerError err, [])
      | Inr user_msg \<Rightarrow>
         if user_msg = [] then (SESSIONS, BadRequest ''Empty message'', [])
         else
     (case ensure_chat_session e (p_session_id payload) SESSIONS of
        Inl err \<Rightarrow> (SESSIONS, ServerError err, [])
      | Inr (SESSIONS1, s0, session_id) \<Rightarrow>
           let s1 = s0\<lparr>messages := messages s0 @
                      [\<lparr>role = User, content = Some user_msg, msg_meta = Some []\<rparr>]\<rparr>;
               last_topic = current_topic s1;
               current_topic1 = extract_topic user_msg (Some last_topic);
               s2 = s1\<lparr>current_topic := or_empty current_topic1\<rparr>;
               session_memory_text =
                 build_session_memory_sections (sections s2) current_topic1 5 1500;
               extra_system_msgs = memory_messages session_memory_text
           in (case parse_top_k (p_top_k payload) of
                 Inl err \<Rightarrow> (SESSIONS1(session_id \<mapsto> s2), ServerError (Raised err), [])
               | Inr top_k \<Rightarrow>
              (case search_azure e user_msg top_k of
                 Inl err \<Rightarrow>
                   (SESSIONS1(session_id \<mapsto> s2), ServerError (Raised err),
                    [SearchCall user_msg top_k])
               | Inr retrieved \<Rightarrow>
                   let msgs = build_hybrid_messages user_msg retrieved (Some extra_system_msgs);
                       calls = [SearchCall user_msg top_k, CompletionCall msgs]
                   in (case completions_create e msgs of
                         Inr ai_msg \<Rightarrow>
                           (SESSIONS1(session_id \<mapsto>
                              s2\<lparr>messages := messages s2 @
                                    [\<lparr>role = Assistant, content = ai_msg, msg_meta = Some []\<rparr>],
                                  sections := sections s2 @
                                    [\<lparr>timestamp = utcnow_answered e, query = user_msg,
                                      answer = ai_msg\<rparr>]\<rparr>),
                            SessionOk session_id ai_msg (sources_of retrieved), calls)
                       | Inl err \<Rightarrow>
                           (SESSIONS1(session_id \<mapsto> s2), ServerError (Raised err), calls)))))))"

section \<open>The one-shot query: \<^verbatim>\<open>/query\<close>\<close>

text \<open>
  \<^verbatim>\<open>strip_markdown\<close> rewrites the answer with regular expressions; no property below
  depends on what it returns, so the handler takes it as a parameter. The handler is
  \<^verbatim>\<open>query\<close> in the source; \<open>query\<close> here is the field of a section.
\<close>

definition query_route ::
  "(string \<Rightarrow> string) \<Rightarrow> env \<Rightarrow> request_body \<Rightarrow> response \<times> ext_call list" where
  "query_route strip_markdown e body =
     (case get_json_or_empty body of
        Inl err \<Rightarrow> (ServerError err, [])
      | Inr payload \<Rightarrow>
     (case stripped_text (p_q payload) of
        Inl err \<Rightarrow> (ServerError err, [])
      | Inr q \<Rightarrow>
         if q = [] then (BadRequest ''Empty query'', [])
         else
           (case parse_top_k (p_top_k payload) of
              Inl err \<Rightarrow> (ServerError (Raised err), [])
            | Inr top_k \<Rightarrow>
           (case search_azure e q top_k of
              Inl err \<Rightarrow> (ServerError (Raised err), [SearchCall q top_k])
            | Inr final_results \<Rightarrow>
                let msgs = build_hybrid_messages q final_results None;
                    calls = [SearchCall q top_k, CompletionCall msgs]
                in (case completions_create e msgs of
                      Inr ai_msg \<Rightarrow>
                        (QueryOk (strip_markdown (or_empty ai_msg)) (sources_of final_results),
                         calls)
                    | Inl err \<Rightarrow> (ServerError (Raised err), calls))))))"

section \<open>Sequences of requests\<close>

datatype single_request = ChatRequest env request_body | ResetRequest

fun run_single :: "single_request list \<Rightarrow> flask_session \<Rightarrow> flask_session" where
  "run_single [] session = session"
| "run_single (ChatRequest e body # rs) session = run_single rs (fst (chat e body session))"
| "run_single (ResetRequest # rs) session = run_single rs (reset_history session)"

datatype multi_request =
    ChatSessionRequest env request_body
  | CreateSessionRequest env request_body
  | RenameSessionRequest string request_body

fun run_multi :: "multi_request list \<Rightarrow> sessions_store \<Rightarrow> sessions_store" where
  "run_multi [] SESSIONS = SESSIONS"
| "run_multi (ChatSessionRequest e body # rs) SESSIONS =
     run_multi rs (fst (chat_session e body SESSIONS))"
| "run_multi (CreateSessionRequest e body # rs) SESSIONS =
     run_multi rs (fst (create_session_route e body SESSIONS))"
| "run_multi (RenameSessionRequest i body # rs) SESSIONS =
     run_multi rs (fst (rename_session i body SESSIONS))"

text \<open>
  The user/assistant pairs of a message sequence: a user message directly followed by an
  assistant message is one exchange; a user message with no assistant message behind it
  is unanswered.
\<close>

fun qa_pairs :: "stored_message list \<Rightarrow> (string option \<times> string option) list" where
  "qa_pairs (m # m' # ms) =
     (if role m = User \<and> role m' = Assistant
      then (content m, content m') # qa_pairs ms
      else qa_pairs (m' # ms))"
| "qa_pairs ms = []"

fun unanswered :: "stored_message list \<Rightarrow> nat" where
  "unanswered (m # m' # ms) =
     (if role m = User \<and> role m' = Assistant then unanswered ms
      else (if role m = User then 1 else 0) + unanswered (m' # ms))"
| "unanswered [m] = (if role m = User then 1 else 0)"
| "unanswered [] = 0"

definition qa_of_sections :: "section list \<Rightarrow> (string option \<times> string option) list" where
  "qa_of_sections ss = map (\<lambda>s. (Some (query s), answer s)) ss"

text \<open>The conversation id a response of \<^verbatim>\<open>/chat_session\<close> carries, if any.\<close>

definition response_session_id :: "response \<Rightarrow> string option" where
  "response_session_id r = (case r of SessionOk i a srcs \<Rightarrow> Some i | _ \<Rightarrow> None)"

text \<open>
  The answer a turn gets, if it gets one: \<open>Some ai\<close> when \<^verbatim>\<open>top_k\<close> is read, the retrieval
  returns and the generation call, on the prompt both chat handlers build from the message,
  the retrieved documents and the session memory, returns the content \<open>ai\<close>; \<open>None\<close> when
  one of the three raises.
\<close>

definition turn_answer ::
  "env \<Rightarrow> top_k_field \<Rightarrow> string \<Rightarrow> section list \<Rightarrow> string option \<Rightarrow> string option option" where
  "turn_answer e f user_msg secs topic =
     (case parse_top_k f of
        Inl err \<Rightarrow> None
      | Inr top_k \<Rightarrow>
          (case search_azure e user_msg top_k of
             Inl err \<Rightarrow> None
           | Inr retrieved \<Rightarrow>
               (case completions_create e
                       (build_hybrid_messages user_msg retrieved
                          (Some (memory_messages
                             (build_session_memory_sections secs topic 5 1500)))) of
                  Inl err \<Rightarrow> None
                | Inr ai_msg \<Rightarrow> Some ai_msg)))"

text \<open>
  Messages and sections in lockstep, given the number \<open>n\<close> of seed messages a history
  starts with: the sections are, in order, the user/assistant pairs of the messages, and
  the messages are the seed messages, two per section and the unanswered user messages.
\<close>

definition lockstep :: "nat \<Rightarrow> stored_message list \<Rightarrow> section list \<Rightarrow> bool" where
  "lockstep n ms ss \<longleftrightarrow>
     qa_of_sections ss = qa_pairs ms \<and> length ms = n + 2 * length ss + unanswered ms"

definition store_ok :: "sessions_store \<Rightarrow> bool" where
  "store_ok S \<longleftrightarrow> (\<forall>i s. S i = Some s \<longrightarrow> lockstep 0 (messages s) (sections s))"

definition flask_ok :: "flask_session \<Rightarrow> bool" where
  "flask_ok \<sigma> \<longleftrightarrow>
     (history \<sigma> = None \<and> fs_sections \<sigma> = None) \<or>
     (\<exists>h ss. history \<sigma> = Some h \<and> fs_sections \<sigma> = Some ss \<and> lockstep 1 h ss)"

section \<open>Example requests\<close>

text \<open>
  Two environments for the examples below: in both the search service returns one row
  that scores above and one that scores below the relevance threshold, the second
  without storage path or source; in the first the generation provider answers, in the
  second it fails.
\<close>

definition example_rows :: "search_row list" where
  "example_rows =
     [\<lparr>r_merged_content = TextContent ''Cupid Limited makes condoms'', r_content = NoContent,
       r_imageCaption = NoContent, r_metadata_storage_path = Some ''blob/cupid.pdf'',
       r_source = None, r_id = Some ''d1'', r_search_score = ScoreNumber (9 / 10)\<rparr>,
      \<lparr>r_merged_content = NoContent, r_content = TextContent ''Monsoon forecast'',
       r_imageCaption = NoContent, r_metadata_storage_path = None,
       r_source = None, r_id = Some ''d2'', r_search_score = ScoreNumber (1 / 10)\<rparr>]"

definition example_docs :: "doc list" where
  "example_docs =
     [\<lparr>doc_id = ''d1'', text = ''Cupid Limited makes condoms'',
       meta = [''source'' \<mapsto> Some ''blob/cupid.pdf'', ''people'' \<mapsto> None,
               ''organizations'' \<mapsto> None, ''locations'' \<mapsto> None],
       score = 9 / 10\<rparr>,
      \<lparr>doc_id = ''d2'', text = ''Monsoon forecast'',
       meta = [''source'' \<mapsto> None, ''people'' \<mapsto> None, ''organizations'' \<mapsto> None,
               ''locations'' \<mapsto> None],
       score = 1 / 10\<rparr>]"

definition answering_env :: env where
  "answering_env =
     \<lparr>search_client = Some (\<lambda>q k. Results example_rows None),
      completions_create = (\<lambda>ms. Inr (Some ''Cupid Limited is a manufacturer'')),
      uuid4 = ''u1'', utcnow_created = ''t0'', utcnow_answered = ''t1''\<rparr>"

definition failing_env :: env where
  "failing_env =
     \<lparr>search_client = Some (\<lambda>q k. Results example_rows None),
      completions_create = (\<lambda>ms. Inl ''timeout''),
      uuid4 = ''u1'', utcnow_created = ''t0'', utcnow_answered = ''t1''\<rparr>"

definition message_body :: "string \<Rightarrow> id_field \<Rightarrow> request_body" where
  "message_body m i =
     Payload \<lparr>p_message = StrValue m, p_q = FalsyValue, p_session_id = i, p_title = FalsyValue,
              p_top_k = TopKMissing\<rparr>"

section \<open>Properties of the string primitives\<close>

lemma split_sep_run:
  "split_sep (\<lambda>c. \<not> P c) s =
     (case dropWhile P s of
        [] \<Rightarrow> [takeWhile P s]
      | x # d \<Rightarrow> takeWhile P s # split_sep (\<lambda>c. \<not> P c) d)"
proof (induction s)
  case Nil
  then show ?case by simp
next
  case (Cons a s)
  show ?case
  proof (cases "P a")
    case False
    then show ?thesis by simp
  next
    case True
    show ?thesis
    proof (cases "dropWhile P s")
      case Nil
      with True Cons show ?thesis by (simp del: dropWhile_eq_Nil_conv)
    next
      case (Cons x d)
      with True Cons.IH show ?thesis by (simp del: dropWhile_eq_Nil_conv)
    qed
  qed
qed

lemma spec_tokens_Nil: "spec_tokens [] = []"
  by (simp add: spec_tokens_def)

lemma spec_tokens_sep: "\<not> is_az09 c \<Longrightarrow> spec_tokens (c # cs) = spec_tokens cs"
  by (simp add: spec_tokens_def)

lemma spec_tokens_run:
  assumes "is_az09 c"
  shows "spec_tokens (c # cs) = (c # takeWhile is_az09 cs) # spec_tokens (dropWhile is_az09 cs)"
proof (cases "dropWhile is_az09 cs")
  case Nil
  then show ?thesis
    using assms split_sep_run [of is_az09 cs]
    by (simp add: spec_tokens_def del: dropWhile_eq_Nil_conv)
next
  case (Cons x d)
  then have "\<not> is_az09 x"
    by (metis hd_dropWhile list.sel(1) list.distinct(1))
  then show ?thesis
    using assms Cons split_sep_run [of is_az09 cs]
    by (simp add: spec_tokens_def del: dropWhile_eq_Nil_conv)
qed

lemma findall_is_spec_tokens: "findall_az09 s = spec_tokens s"
  by (induction s rule: findall_az09.induct)
     (simp_all add: spec_tokens_Nil spec_tokens_sep spec_tokens_run)

lemma isspace_not_az09: "isspace c \<Longrightarrow> \<not> is_az09 c"
  by (auto simp: isspace_def is_az09_def Let_def)

lemma findall_lstrip: "findall_az09 (dropWhile isspace s) = findall_az09 s"
  by (induction s) (auto simp: isspace_not_az09)

lemma findall_append_sep: "\<not> is_az09 c \<Longrightarrow> findall_az09 (s @ [c]) = findall_az09 s"
proof (induction s rule: findall_az09.induct)
  case 1
  then show ?case by simp
next
  case (2 x xs)
  show ?case
  proof (cases "is_az09 x")
    case False
    with 2 show ?thesis by simp
  next
    case True
    show ?thesis
    proof (cases "\<forall>y\<in>set xs. is_az09 y")
      case all: True
      then have tw: "takeWhile is_az09 xs = xs" and dw: "dropWhile is_az09 xs = []"
        by simp_all
      from all True 2(3) show ?thesis
        by (simp add: takeWhile_append dropWhile_append tw dw)
    next
      case False
      then have tw: "takeWhile is_az09 (xs @ [c]) = takeWhile is_az09 xs"
        and dw: "dropWhile is_az09 (xs @ [c]) = dropWhile is_az09 xs @ [c]"
        by (auto simp: takeWhile_append dropWhile_append)
      from True 2(1) [OF True 2(3)] show ?thesis
        by (simp add: tw dw)
    qed
  qed
qed

lemma findall_rstrip: "findall_az09 (rev (dropWhile isspace (rev s))) = findall_az09 s"
proof (induction s rule: rev_induct)
  case Nil
  then show ?case by simp
next
  case (snoc x xs)
  then show ?case
    by (cases "isspace x") (simp_all add: findall_append_sep isspace_not_az09)
qed

lemma findall_strip: "findall_az09 (strip s) = findall_az09 s"
  by (simp add: strip_def rstrip_def lstrip_def findall_rstrip findall_lstrip)

lemma of_char_lt: "(of_char c :: nat) < 256"
  by (cases c) simp

lemma isspace_lower_char: "isspace (lower_char c) = isspace c"
  using of_char_lt [of c]
  by (auto simp: isspace_def lower_char_def Let_def)

lemma lower_dropWhile: "lower (dropWhile isspace s) = dropWhile isspace (lower s)"
  by (induction s) (simp_all add: lower_def isspace_lower_char)

lemma lower_strip: "lower (strip s) = strip (lower s)"
  by (simp add: strip_def rstrip_def lstrip_def lower_dropWhile
      lower_def rev_map [symmetric] lower_dropWhile [unfolded lower_def])

lemma strip_Nil_iff: "strip s = [] \<longleftrightarrow> list_all isspace s"
proof
  assume "strip s = []"
  then have "dropWhile isspace (rev (dropWhile isspace s)) = []"
    by (simp add: strip_def rstrip_def lstrip_def)
  then have a: "\<forall>c\<in>set (dropWhile isspace s). isspace c" by simp
  have "dropWhile isspace s = []"
  proof (cases "dropWhile isspace s")
    case (Cons x d)
    then have "\<not> isspace x" by (metis hd_dropWhile list.sel(1) list.distinct(1))
    with a Cons show ?thesis by simp
  qed simp
  then show "list_all isspace s" by (simp add: list_all_iff)
next
  assume "list_all isspace s"
  then have "dropWhile isspace s = []" by (simp add: list_all_iff)
  then show "strip s = []"
    by (simp add: strip_def rstrip_def lstrip_def del: dropWhile_eq_Nil_conv)
qed

section \<open>Topic tracker\<close>

lemma blank_no_tokens:
  assumes "list_all isspace s"
  shows "findall_az09 (lower s) = []"
proof -
  have "findall_az09 (lower s) = findall_az09 (strip (lower s))"
    by (simp add: findall_strip)
  also have "\<dots> = findall_az09 (lower (strip s))"
    by (simp add: lower_strip)
  also have "\<dots> = []"
    using assms by (simp add: strip_Nil_iff [symmetric] lower_def)
  finally show ?thesis .
qed

lemma tokens_of_trimmed: "findall_az09 (lower (strip s)) = spec_tokens (lower s)"
proof -
  have "findall_az09 (lower (strip s)) = findall_az09 (strip (lower s))"
    by (simp add: lower_strip)
  also have "\<dots> = findall_az09 (lower s)"
    by (rule findall_strip)
  finally show ?thesis
    by (simp add: findall_is_spec_tokens)
qed

lemma extract_topic_cases:
  "extract_topic user_msg previous_topic =
     (if list_all isspace user_msg then previous_topic
      else
        let tokens = spec_tokens (lower user_msg)
        in if tokens = [] then previous_topic
           else if hd tokens \<in> set question_starts then previous_topic
           else if length tokens \<le> 4 then Some (lower (strip user_msg))
           else previous_topic)"
proof (cases "list_all isspace user_msg")
  case True
  then have "spec_tokens (lower user_msg) = []"
    using blank_no_tokens [of user_msg] by (simp add: findall_is_spec_tokens)
  with True show ?thesis
    by (simp add: extract_topic_def tokens_of_trimmed)
next
  case False
  then have "user_msg \<noteq> []" by auto
  with False show ?thesis
    by (simp add: extract_topic_def tokens_of_trimmed Let_def)
qed

lemma extract_topic_example_new_topic:
  "extract_topic ''Cupid Limited'' (Some '''') = Some ''cupid limited''"
  by code_simp

lemma extract_topic_example_follow_up:
  "extract_topic ''who is the owner'' (Some ''cupid limited'') = Some ''cupid limited''"
  by code_simp

text \<open>
  Claim C2, as amended. For every message and previous topic, \<^const>\<open>extract_topic\<close>
  follows the stated algorithm, with one difference in the fourth step: an empty or
  whitespace-only message returns the previous topic; so does a message without
  lowercase alphanumeric tokens, and one whose first token is a question word; otherwise
  a message of at most four tokens returns its lowercase text \<^emph>\<open>with leading and
  trailing whitespace removed\<close>; otherwise the previous topic is returned. The tokens are
  those of the specification (runs between separators), not those of the scanner. The
  two examples of the specification hold.
\<close>

theorem extract_topic_algorithm:
  "extract_topic user_msg previous_topic =
     (if list_all isspace user_msg then previous_topic
      else
        let tokens = spec_tokens (lower user_msg)
        in if tokens = [] then previous_topic
           else if hd tokens \<in> set question_starts then previous_topic
           else if length tokens \<le> 4 then Some (lower (strip user_msg))
           else previous_topic)
   \<and> extract_topic ''Cupid Limited'' (Some '''') = Some ''cupid limited''
   \<and> extract_topic ''who is the owner'' (Some ''cupid limited'') = Some ''cupid limited''"
  using extract_topic_cases [of user_msg previous_topic]
    extract_topic_example_new_topic extract_topic_example_follow_up
  by blast

text \<open>
  Claim C2 as stated fails on a message with surrounding whitespace: for the one-token
  message \<open>'' Cupid ''\<close> the entire lowercase message text is \<open>'' cupid ''\<close>, which is
  what the algorithm of the specification returns, while the code returns \<open>''cupid''\<close>.
\<close>

theorem extract_topic_untrimmed_counterexample:
  "extract_topic '' Cupid '' (Some '''') = Some ''cupid''
   \<and> update_topic_spec '' Cupid '' (Some '''') = Some '' cupid ''
   \<and> extract_topic '' Cupid '' (Some '''') \<noteq> update_topic_spec '' Cupid '' (Some '''')"
  by code_simp

section \<open>Session memory builder\<close>

lemma py_slice_from_last_n: "0 < limit \<Longrightarrow> py_slice_from (- limit) xs = last_n (nat limit) xs"
  by (simp add: py_slice_from_def last_n_def nat_diff_distrib')

lemma py_slice_from_suffix: "suffix (py_slice_from k xs) xs"
  by (simp add: py_slice_from_def suffix_drop)

lemma py_slice_to_take: "0 \<le> n \<Longrightarrow> py_slice_to n xs = take (nat n) xs"
  by (simp add: py_slice_to_def)

lemma memory_of_selection:
  "secs \<noteq> [] \<Longrightarrow>
   build_session_memory_sections secs topic limit max_chars =
     (let t = strip (lower (or_empty topic));
          matching = (if t \<noteq> [] then filter (mentions t) secs else [])
      in py_slice_to max_chars (render_memory
           (py_slice_from (- limit) (if matching = [] then secs else matching))))"
  by (simp add: build_session_memory_sections_def Let_def)

lemma kept_subseq:
  "subseq (py_slice_from k (if filter P xs = [] then xs else filter P xs)) xs"
proof -
  have "subseq (if filter P xs = [] then xs else filter P xs) xs"
    by simp
  moreover have "subseq (py_slice_from k ys) ys" for ys :: "'a list"
    using py_slice_from_suffix by blast
  ultimately show ?thesis
    using subseq_order.order_trans by blast
qed

text \<open>
  The selection for a limit of at least 1, which covers the default 5 that both chat
  handlers pass. For every non-empty sequence of sections and every topic whose normalised
  form (lowercased, trimmed) is non-empty: when no section mentions the topic in its
  lowercased query or answer, the builder's output is the rendering of the last \<open>limit\<close>
  sections of the unfiltered sequence, in their order, cut at \<open>max_chars\<close> as the builder
  cuts every output; when some sections mention it, the output is the rendering of the
  last \<open>limit\<close> of those, cut in the same way.
\<close>

lemma memory_selection:
  assumes "secs \<noteq> []"
    and "strip (lower (or_empty topic)) \<noteq> []"
    and "0 < limit"
  shows "(filter (mentions (strip (lower (or_empty topic)))) secs = [] \<longrightarrow>
            build_session_memory_sections secs topic limit max_chars =
              py_slice_to max_chars (render_memory (last_n (nat limit) secs)))
       \<and> (filter (mentions (strip (lower (or_empty topic)))) secs \<noteq> [] \<longrightarrow>
            build_session_memory_sections secs topic limit max_chars =
              py_slice_to max_chars (render_memory (last_n (nat limit)
                (filter (mentions (strip (lower (or_empty topic)))) secs))))"
  using assms by (simp add: memory_of_selection py_slice_from_last_n Let_def)

lemma memory_selection_example:
  "build_session_memory_sections
     [\<lparr>timestamp = ''t1'', query = ''Cupid Limited'', answer = Some ''A condom maker''\<rparr>,
      \<lparr>timestamp = ''t2'', query = ''Infosys'', answer = Some ''An IT company''\<rparr>]
     (Some ''Tata'') 1 1500 =
   py_slice_to 1500 (render_memory (last_n (nat 1)
     [\<lparr>timestamp = ''t1'', query = ''Cupid Limited'', answer = Some ''A condom maker''\<rparr>,
      \<lparr>timestamp = ''t2'', query = ''Infosys'', answer = Some ''An IT company''\<rparr>]))
   \<and>
   build_session_memory_sections
     [\<lparr>timestamp = ''t1'', query = ''Cupid Limited'', answer = Some ''A condom maker''\<rparr>,
      \<lparr>timestamp = ''t2'', query = ''Infosys'', answer = Some ''An IT company''\<rparr>]
     (Some ''Cupid'') 1 1500 =
   py_slice_to 1500 (render_memory (last_n (nat 1)
     (filter (mentions (strip (lower (or_empty (Some ''Cupid'')))))
       [\<lparr>timestamp = ''t1'', query = ''Cupid Limited'', answer = Some ''A condom maker''\<rparr>,
        \<lparr>timestamp = ''t2'', query = ''Infosys'', answer = Some ''An IT company''\<rparr>])))"
proof -
  let ?S = "[\<lparr>timestamp = ''t1'', query = ''Cupid Limited'', answer = Some ''A condom maker''\<rparr>,
             \<lparr>timestamp = ''t2'', query = ''Infosys'', answer = Some ''An IT company''\<rparr>]"
  have ne: "?S \<noteq> []" by simp
  have pos: "(0::int) < 1" by simp
  have t1: "strip (lower (or_empty (Some ''Tata''))) \<noteq> []" by code_simp
  have t2: "strip (lower (or_empty (Some ''Cupid''))) \<noteq> []" by code_simp
  have no_match: "filter (mentions (strip (lower (or_empty (Some ''Tata''))))) ?S = []"
    by code_simp
  have a_match: "filter (mentions (strip (lower (or_empty (Some ''Cupid''))))) ?S \<noteq> []"
    by code_simp
  from memory_selection [OF ne t1 pos, of 1500] no_match
    memory_selection [OF ne t2 pos, of 1500] a_match
  show ?thesis by blast
qed


text \<open>
  Claim C6, as amended. For every sequence of sections, every topic, every limit and
  every \<open>max_chars\<close> that is not negative: the builder's output has at most \<open>max_chars\<close>
  characters; it is the hard cut of the rendering of a subsequence of the input, so the
  rendered sections keep their original order; and on an empty sequence it is the empty
  string. The builder only reads its argument (it iterates over it and slices it into a
  new list), which is why it is a function of its arguments here.
\<close>

theorem memory_bounded:
  assumes "0 \<le> max_chars"
  shows "length (build_session_memory_sections secs topic limit max_chars) \<le> nat max_chars
       \<and> (\<exists>kept. subseq kept secs \<and>
             build_session_memory_sections secs topic limit max_chars =
               take (nat max_chars) (render_memory kept))
       \<and> build_session_memory_sections [] topic limit max_chars = []"
proof (intro conjI)
  show "length (build_session_memory_sections secs topic limit max_chars) \<le> nat max_chars"
    using assms by (simp add: build_session_memory_sections_def Let_def py_slice_to_take)
  show "build_session_memory_sections [] topic limit max_chars = []"
    by (simp add: build_session_memory_sections_def)
  show "\<exists>kept. subseq kept secs \<and>
          build_session_memory_sections secs topic limit max_chars =
            take (nat max_chars) (render_memory kept)"
  proof (cases "secs = []")
    case True
    then have "build_session_memory_sections secs topic limit max_chars =
        take (nat max_chars) (render_memory [])"
      by (simp add: build_session_memory_sections_def render_memory_def)
    with True show ?thesis by (metis subseq_order.order_refl)
  next
    case False
    define t where "t = strip (lower (or_empty topic))"
    define matching where "matching = (if t \<noteq> [] then filter (mentions t) secs else [])"
    define kept where "kept = py_slice_from (- limit) (if matching = [] then secs else matching)"
    have "matching = [] \<or> matching = filter (mentions t) secs"
      by (simp add: matching_def)
    then have "subseq kept secs"
      unfolding kept_def using kept_subseq [of "- limit" "mentions t" secs]
      by (metis py_slice_from_suffix suffix_imp_subseq)
    moreover have "build_session_memory_sections secs topic limit max_chars =
        take (nat max_chars) (render_memory kept)"
      using False assms
      by (simp add: memory_of_selection Let_def kept_def matching_def t_def py_slice_to_take)
    ultimately show ?thesis by blast
  qed
qed

theorem memory_bounded_witness:
  "length (build_session_memory_sections
     [\<lparr>timestamp = ''t1'', query = ''Cupid Limited'', answer = Some ''A condom maker''\<rparr>]
     None 5 10) \<le> nat 10
   \<and> (\<exists>kept.
         subseq kept [\<lparr>timestamp = ''t1'', query = ''Cupid Limited'', answer = Some ''A condom maker''\<rparr>] \<and>
         build_session_memory_sections
           [\<lparr>timestamp = ''t1'', query = ''Cupid Limited'', answer = Some ''A condom maker''\<rparr>]
           None 5 10 = take (nat 10) (render_memory kept))
   \<and> build_session_memory_sections [] None 5 10 = []"
proof -
  have "(0::int) \<le> 10" by simp
  then show ?thesis by (rule memory_bounded)
qed

text \<open>
  Claim C6 as stated fails for a negative \<open>max_chars\<close>: \<^verbatim>\<open>memory_text[:-1]\<close> drops the last
  character only, so the output is longer than \<open>max_chars\<close>.
\<close>

theorem memory_negative_max_chars_counterexample:
  "\<not> int (length (build_session_memory_sections
       [\<lparr>timestamp = ''t1'', query = ''Cupid Limited'', answer = Some ''A condom maker''\<rparr>]
       None 5 (- 1))) \<le> - 1"
  by code_simp

section \<open>Retrieval gate and prompt assembler\<close>

lemma gate_keeps_in_order:
  "relevant_docs docs = filter (\<lambda>r. relevance_threshold \<le> score r) docs"
  by (simp add: relevant_docs_def)

lemma gate_boundary:
  "relevant_docs
     [\<lparr>doc_id = ''a'', text = ''x'', meta = Map.empty, score = relevance_threshold\<rparr>,
      \<lparr>doc_id = ''b'', text = ''y'', meta = Map.empty,
       score = 6124895493223875 / 18014398509481984\<rparr>] =
     [\<lparr>doc_id = ''a'', text = ''x'', meta = Map.empty, score = relevance_threshold\<rparr>]"
  by (simp add: relevant_docs_def relevance_threshold_def)

lemma gate_nothing_relevant: "relevant_docs docs = [] \<Longrightarrow> context_text docs = []"
  by (simp add: context_text_def)

lemma gate_empty_input: "context_text [] = []"
  by (simp add: context_text_def relevant_docs_def)

lemma gate_truncates: "length (context_text docs) \<le> 6000"
  by (simp add: context_text_def py_slice_to_def Let_def)

lemma gate_joins_chunks:
  "relevant_docs docs \<noteq> [] \<Longrightarrow>
   context_text docs =
     take 6000 (join (nl @ nl)
       (map context_chunk (filter (\<lambda>r. text r \<noteq> []) (relevant_docs docs))))"
  by (simp add: context_text_def py_slice_to_def Let_def)

lemma chunk_with_source:
  "meta r ''source'' = Some (Some src) \<Longrightarrow> context_chunk r = ''Source: '' @ src @ nl @ text r"
  by (simp add: context_chunk_def py_str_def)

lemma chunk_without_source_key:
  "meta r ''source'' = None \<Longrightarrow> context_chunk r = ''Source: '' @ doc_id r @ nl @ text r"
  by (simp add: context_chunk_def py_str_def)

text \<open>
  Claim C4, at the input where the code leaves it. \<^verbatim>\<open>search_azure\<close> always stores the key
  \<^verbatim>\<open>source\<close> in \<^verbatim>\<open>meta\<close>, with the value \<^verbatim>\<open>None\<close> when the index row has neither a storage
  path nor a source. For such a document \<^verbatim>\<open>meta.get('source', doc_id)\<close> finds the key and
  returns \<^verbatim>\<open>None\<close>, so the block reads \<open>Source: None\<close> instead of naming the document id.
  The rest of the claim holds: see \<open>gate_keeps_in_order\<close>, \<open>gate_boundary\<close>,
  \<open>gate_joins_chunks\<close>, \<open>gate_truncates\<close>, \<open>gate_nothing_relevant\<close>, \<open>gate_empty_input\<close>.
\<close>

theorem gate_source_none_is_rendered:
  "context_text
     [\<lparr>doc_id = ''doc-1'', text = ''Revenue grew'',
       meta = [''source'' \<mapsto> None, ''people'' \<mapsto> None, ''organizations'' \<mapsto> None,
               ''locations'' \<mapsto> None],
       score = 1\<rparr>] = ''Source: None'' @ nl @ ''Revenue grew''"
  by code_simp

lemma prompt_with_memory:
  "build_hybrid_messages user_msg docs (Some (memory_messages memory_text)) =
     [\<lparr>role = System, content = system_prompt, msg_meta = None\<rparr>] @
     (if memory_text \<noteq> []
      then [\<lparr>role = System,
             content = ''Session memory (previous Q&A sections):'' @ nl @ memory_text,
             msg_meta = None\<rparr>]
      else []) @
     [\<lparr>role = System, content = ''Context:'' @ nl @ context_text docs, msg_meta = None\<rparr>,
      \<lparr>role = User, content = user_msg, msg_meta = None\<rparr>]"
  by (simp add: build_hybrid_messages_def memory_messages_def)

lemma prompt_without_memory:
  "build_hybrid_messages user_msg docs None =
     [\<lparr>role = System, content = system_prompt, msg_meta = None\<rparr>,
      \<lparr>role = System, content = ''Context:'' @ nl @ context_text docs, msg_meta = None\<rparr>,
      \<lparr>role = User, content = user_msg, msg_meta = None\<rparr>]"
  by (simp add: build_hybrid_messages_def)

lemma one_context_message:
  "length (filter (\<lambda>m. role m = System \<and> prefix (''Context:'' @ nl) (content m))
     (build_hybrid_messages user_msg docs (Some (memory_messages memory_text)))) = 1"
  by (simp add: prompt_with_memory system_prompt_def nl_def)

text \<open>
  Claim C3. For every user message, every list of retrieved documents (whose gate output
  is the context text) and every memory text, the assembler, called as the chat handlers
  call it, emits in this order: the persona system message; one session-memory system
  message if and only if the memory text is non-empty; the system message that starts
  with \<open>Context:\<close> and a newline, followed by the context text, whatever that text is; the
  user message with the raw text. Called without memory, as the one-shot query calls it,
  it emits the other three. Exactly one system message carries the \<open>Context:\<close> label.
\<close>

theorem prompt_order_is_fixed:
  "build_hybrid_messages user_msg docs (Some (memory_messages memory_text)) =
     [\<lparr>role = System, content = system_prompt, msg_meta = None\<rparr>] @
     (if memory_text \<noteq> []
      then [\<lparr>role = System,
             content = ''Session memory (previous Q&A sections):'' @ nl @ memory_text,
             msg_meta = None\<rparr>]
      else []) @
     [\<lparr>role = System, content = ''Context:'' @ nl @ context_text docs, msg_meta = None\<rparr>,
      \<lparr>role = User, content = user_msg, msg_meta = None\<rparr>]
   \<and> build_hybrid_messages user_msg docs None =
     [\<lparr>role = System, content = system_prompt, msg_meta = None\<rparr>,
      \<lparr>role = System, content = ''Context:'' @ nl @ context_text docs, msg_meta = None\<rparr>,
      \<lparr>role = User, content = user_msg, msg_meta = None\<rparr>]
   \<and> length (filter (\<lambda>m. role m = System \<and> prefix (''Context:'' @ nl) (content m))
         (build_hybrid_messages user_msg docs (Some (memory_messages memory_text)))) = 1
   \<and> build_hybrid_messages user_msg [] (Some (memory_messages memory_text)) ! 
         (if memory_text \<noteq> [] then 2 else 1) =
       \<lparr>role = System, content = ''Context:'' @ nl, msg_meta = None\<rparr>"
proof (intro conjI)
  show "build_hybrid_messages user_msg [] (Some (memory_messages memory_text)) ! 
         (if memory_text \<noteq> [] then 2 else 1) =
       \<lparr>role = System, content = ''Context:'' @ nl, msg_meta = None\<rparr>"
    by (simp add: prompt_with_memory gate_empty_input)
qed (rule prompt_with_memory prompt_without_memory one_context_message)+

section \<open>Retrieval\<close>

lemma doc_of_row_has_source_key: "doc_of_row r = Inr d \<Longrightarrow> meta d ''source'' \<noteq> None"
  by (auto simp: doc_of_row_def Let_def split: score_field.splits)

lemma docs_of_rows_have_source_key:
  "docs_of_rows rs = Inr ds \<Longrightarrow> list_all (\<lambda>d. meta d ''source'' \<noteq> None) ds"
proof (induction rs arbitrary: ds)
  case Nil
  then show ?case by simp
next
  case (Cons r rs)
  then show ?case
    by (auto split: sum.splits dest: doc_of_row_has_source_key)
qed

text \<open>
  Every document \<^verbatim>\<open>search_azure\<close> returns has the key \<^verbatim>\<open>source\<close> in its \<^verbatim>\<open>meta\<close>, so the
  default of \<^verbatim>\<open>meta.get('source', doc_id)\<close> is never taken for a retrieved document.
\<close>

lemma search_azure_has_source_key:
  "search_azure e q k = Inr ds \<Longrightarrow> list_all (\<lambda>d. meta d ''source'' \<noteq> None) ds"
  by (auto simp: search_azure_def split: option.splits if_splits search_outcome.splits sum.splits
      dest: docs_of_rows_have_source_key)

lemma row_without_source:
  "doc_of_row
     \<lparr>r_merged_content = TextContent ''Revenue grew'', r_content = NoContent,
       r_imageCaption = NoContent, r_metadata_storage_path = None, r_source = None,
       r_id = Some ''doc-1'', r_search_score = ScoreNumber 1\<rparr> =
   Inr \<lparr>doc_id = ''doc-1'', text = ''Revenue grew'',
         meta = [''source'' \<mapsto> None, ''people'' \<mapsto> None, ''organizations'' \<mapsto> None,
                 ''locations'' \<mapsto> None],
         score = 1\<rparr>"
  by (simp add: doc_of_row_def content_part_def py_or_def or_empty_def Let_def)

lemma example_rows_docs: "docs_of_rows example_rows = Inr example_docs"
  by (simp add: example_rows_def example_docs_def doc_of_row_def content_part_def py_or_def
      or_empty_def Let_def)

lemma search_azure_example:
  "q \<noteq> [] \<Longrightarrow> search_azure answering_env q k = Inr example_docs"
  "q \<noteq> [] \<Longrightarrow> search_azure failing_env q k = Inr example_docs"
  by (simp_all add: search_azure_def answering_env_def failing_env_def example_rows_docs)

lemma search_azure_raises:
  "q \<noteq> [] \<Longrightarrow>
   search_azure (e\<lparr>search_client := Some (\<lambda>q k. Results [] (Some err))\<rparr>) q k = Inl err"
  by (simp add: search_azure_def)

section \<open>Reset of the single conversation\<close>

lemma chat_nonblank:
  assumes "body = Payload p" and "p_message p = StrValue m" and "strip m = u" and "u \<noteq> []"
  shows "chat e body \<sigma> =
     (let h0 = (case history \<sigma> of None \<Rightarrow> [seed_message] | Some h \<Rightarrow> h);
          ss0 = (case fs_sections \<sigma> of None \<Rightarrow> [] | Some ss \<Rightarrow> ss);
          topic = extract_topic u (Some (or_empty (fs_current_topic \<sigma>)));
          h1 = h0 @ [\<lparr>role = User, content = Some u, msg_meta = None\<rparr>];
          \<sigma>2 = \<lparr>history = Some h1, fs_sections = Some ss0,
                  fs_current_topic = Some (or_empty topic)\<rparr>;
          ask = (\<lambda>docs. build_hybrid_messages u docs
                   (Some (memory_messages (build_session_memory_sections ss0 topic 5 1500))))
      in case parse_top_k (p_top_k p) of
           Inl err \<Rightarrow> (\<sigma>2, ServerError (Raised err), [])
         | Inr k \<Rightarrow>
            (case search_azure e u k of
               Inl err \<Rightarrow> (\<sigma>2, ServerError (Raised err), [SearchCall u k])
             | Inr docs \<Rightarrow>
                (case completions_create e (ask docs) of
                   Inr ai \<Rightarrow>
                     (\<lparr>history = Some (h1 @ [\<lparr>role = Assistant, content = ai, msg_meta = None\<rparr>]),
                       fs_sections = Some (ss0 @
                         [\<lparr>timestamp = utcnow_answered e, query = u, answer = ai\<rparr>]),
                       fs_current_topic = Some (or_empty topic)\<rparr>,
                      ChatOk (uuid4 e) ai (sources_of docs),
                      [SearchCall u k, CompletionCall (ask docs)])
                 | Inl err \<Rightarrow>
                     (\<sigma>2, ChatError (uuid4 e) (''Backend error: '' @ err) err,
                      [SearchCall u k, CompletionCall (ask docs)]))))"
proof -
  obtain h s t where \<sigma>: "\<sigma> = \<lparr>history = h, fs_sections = s, fs_current_topic = t\<rparr>"
    by (cases \<sigma>) simp
  show ?thesis
    using assms
    by (cases h; cases s; cases t)
       (simp_all add: \<sigma> chat_def get_json_or_empty_def stripped_text_def ensure_session_def
         or_empty_def Let_def split: sum.splits)
qed

lemma blank_text_stripped: "blank_text f \<longleftrightarrow> stripped_text f = Inr []"
  by (cases f) (simp_all add: blank_text_def stripped_text_def strip_Nil_iff)

lemma blank_message_read:
  assumes "body = NoPayload \<or> (\<exists>p. body = Payload p \<and> blank_text (p_message p))"
  shows "\<exists>pl. get_json_or_empty body = Inr pl \<and> stripped_text (p_message pl) = Inr []"
  using assms
  by (auto simp: get_json_or_empty_def blank_text_stripped stripped_text_def)

lemma blank_q_read:
  assumes "body = NoPayload \<or> (\<exists>p. body = Payload p \<and> blank_text (p_q p))"
  shows "\<exists>pl. get_json_or_empty body = Inr pl \<and> stripped_text (p_q pl) = Inr []"
  using assms
  by (auto simp: get_json_or_empty_def blank_text_stripped stripped_text_def)

lemma not_text_read:
  assumes "body = NonObjectPayload \<or> (\<exists>p. body = Payload p \<and> p_message p = OtherValue)"
  shows "get_json_or_empty body = Inl AttributeError \<or>
         (\<exists>pl. get_json_or_empty body = Inr pl \<and> stripped_text (p_message pl) = Inl AttributeError)"
  using assms
  by (auto simp: get_json_or_empty_def stripped_text_def)

lemma not_text_q_read:
  assumes "body = NonObjectPayload \<or> (\<exists>p. body = Payload p \<and> p_q p = OtherValue)"
  shows "get_json_or_empty body = Inl AttributeError \<or>
         (\<exists>pl. get_json_or_empty body = Inr pl \<and> stripped_text (p_q pl) = Inl AttributeError)"
  using assms
  by (auto simp: get_json_or_empty_def stripped_text_def)

lemma chat_blank:
  assumes "body = NoPayload \<or> (\<exists>p. body = Payload p \<and> blank_text (p_message p))"
  shows "chat e body \<sigma> = (\<sigma>, BadRequest ''Empty message'', [])"
proof -
  from blank_message_read [OF assms] obtain pl where
    "get_json_or_empty body = Inr pl" "stripped_text (p_message pl) = Inr []" by blast
  then show ?thesis by (simp add: chat_def)
qed

text \<open>
  Claim C7, as amended. \<^verbatim>\<open>reset_history\<close> removes the three keys from the Flask session: after
  it the session holds no history, no sections and no topic, which is the session of a
  client that has sent nothing yet; the reset stores no seed message. The seed message
  comes with the next accepted \<^verbatim>\<open>/chat\<close> request: its three initialisation steps build,
  from the state the reset left, a history of exactly one message, the seed system
  message, an empty list of sections and an empty topic, and the request then appends
  its user message behind the seed. A request after a reset is answered as the same
  request on a new conversation.
\<close>

theorem reset_clears_then_chat_seeds:
  "reset_history \<sigma> = new_flask_session
   \<and> history (reset_history \<sigma>) = None
   \<and> fs_sections (reset_history \<sigma>) = None
   \<and> fs_current_topic (reset_history \<sigma>) = None
   \<and> ensure_session (reset_history \<sigma>) =
       \<lparr>history = Some [seed_message], fs_sections = Some [], fs_current_topic = Some []\<rparr>
   \<and> role seed_message = System
   \<and> chat e body (reset_history \<sigma>) = chat e body new_flask_session
   \<and> (body = Payload p \<longrightarrow> p_message p = StrValue m \<longrightarrow> strip m \<noteq> [] \<longrightarrow>
        (\<exists>rest. history (fst (chat e body (reset_history \<sigma>))) =
           Some (seed_message # \<lparr>role = User, content = Some (strip m), msg_meta = None\<rparr> # rest)))"
proof -
  have r: "reset_history \<sigma> = new_flask_session"
    by (cases \<sigma>) (simp add: reset_history_def new_flask_session_def)
  have i: "ensure_session new_flask_session =
      \<lparr>history = Some [seed_message], fs_sections = Some [], fs_current_topic = Some []\<rparr>"
    by (simp add: new_flask_session_def ensure_session_def Let_def)
  have s: "role seed_message = System"
    by (simp add: seed_message_def)
  have n: "\<exists>rest. history (fst (chat e body new_flask_session)) =
           Some (seed_message # \<lparr>role = User, content = Some (strip m), msg_meta = None\<rparr> # rest)"
    if "body = Payload p" "p_message p = StrValue m" "strip m \<noteq> []"
    using chat_nonblank [OF that(1) that(2) refl that(3), of e new_flask_session]
    by (simp add: new_flask_session_def Let_def split: sum.splits)
  from i s n show ?thesis
    by (simp add: r new_flask_session_def)
qed

theorem reset_clears_then_chat_seeds_witness:
  "\<exists>rest. history (fst (chat answering_env (message_body ''Cupid Limited'' IdFalsy)
       (reset_history
          \<lparr>history = Some [seed_message, \<lparr>role = User, content = Some ''hi'', msg_meta = None\<rparr>],
            fs_sections = Some [], fs_current_topic = Some ''hi''\<rparr>))) =
     Some (seed_message #
           \<lparr>role = User, content = Some (strip ''Cupid Limited''), msg_meta = None\<rparr> # rest)"
proof -
  have a: "message_body ''Cupid Limited'' IdFalsy =
      Payload \<lparr>p_message = StrValue ''Cupid Limited'', p_q = FalsyValue, p_session_id = IdFalsy,
               p_title = FalsyValue, p_top_k = TopKMissing\<rparr>"
    by (simp add: message_body_def)
  have b: "p_message \<lparr>p_message = StrValue ''Cupid Limited'', p_q = FalsyValue,
      p_session_id = IdFalsy, p_title = FalsyValue, p_top_k = TopKMissing\<rparr> =
      StrValue ''Cupid Limited''"
    by simp
  have c: "strip ''Cupid Limited'' \<noteq> []"
    by code_simp
  from reset_clears_then_chat_seeds
    [of "\<lparr>history = Some [seed_message, \<lparr>role = User, content = Some ''hi'', msg_meta = None\<rparr>],
          fs_sections = Some [], fs_current_topic = Some ''hi''\<rparr>"
       answering_env "message_body ''Cupid Limited'' IdFalsy" _ "''Cupid Limited''"]
    a b c
  show ?thesis by blast
qed

text \<open>
  Claim C7 as stated fails on the state the reset leaves: it holds no history at all, not
  a history of one system message, and a request that is rejected for its blank message
  leaves it so.
\<close>

theorem reset_stores_no_seed_counterexample:
  "history (reset_history
      \<lparr>history = Some [seed_message, \<lparr>role = User, content = Some ''hi'', msg_meta = None\<rparr>],
        fs_sections = Some [], fs_current_topic = Some ''hi''\<rparr>) = None
   \<and> history (reset_history
      \<lparr>history = Some [seed_message, \<lparr>role = User, content = Some ''hi'', msg_meta = None\<rparr>],
        fs_sections = Some [], fs_current_topic = Some ''hi''\<rparr>) \<noteq> Some [seed_message]
   \<and> history (fst (chat answering_env (message_body ''  '' IdFalsy)
        (reset_history
           \<lparr>history = Some [seed_message, \<lparr>role = User, content = Some ''hi'', msg_meta = None\<rparr>],
             fs_sections = Some [], fs_current_topic = Some ''hi''\<rparr>))) = None"
  by code_simp

section \<open>Validation of the message text\<close>

lemma chat_session_blank:
  assumes "body = NoPayload \<or> (\<exists>p. body = Payload p \<and> blank_text (p_message p))"
  shows "chat_session e body S = (S, BadRequest ''Empty message'', [])"
proof -
  from blank_message_read [OF assms] obtain pl where
    "get_json_or_empty body = Inr pl" "stripped_text (p_message pl) = Inr []" by blast
  then show ?thesis by (simp add: chat_session_def)
qed

lemma query_blank:
  assumes "body = NoPayload \<or> (\<exists>p. body = Payload p \<and> blank_text (p_q p))"
  shows "query_route md e body = (BadRequest ''Empty query'', [])"
proof -
  from blank_q_read [OF assms] obtain pl where
    "get_json_or_empty body = Inr pl" "stripped_text (p_q pl) = Inr []" by blast
  then show ?thesis by (simp add: query_route_def)
qed

lemma not_text_raises:
  assumes "body = NonObjectPayload \<or> (\<exists>p. body = Payload p \<and> p_message p = OtherValue)"
  shows "chat e body \<sigma> = (\<sigma>, ServerError AttributeError, [])"
    and "chat_session e body S = (S, ServerError AttributeError, [])"
  using not_text_read [OF assms]
  by (auto simp: chat_def chat_session_def)

lemma query_not_text_raises:
  assumes "body = NonObjectPayload \<or> (\<exists>p. body = Payload p \<and> p_q p = OtherValue)"
  shows "query_route md e body = (ServerError AttributeError, [])"
  using not_text_q_read [OF assms]
  by (auto simp: query_route_def)

text \<open>
  Claim C8, as amended. A submit-message request (\<^verbatim>\<open>/chat\<close>, \<^verbatim>\<open>/chat_session\<close>) whose body is
  absent, falsy or an object, and whose \<^verbatim>\<open>message\<close> is missing, falsy, empty or a string of
  whitespace only, is answered with the validation error (status 400); so is a one-shot
  query whose \<^verbatim>\<open>q\<close> is. A request whose body is another truthy JSON value, or whose
  \<^verbatim>\<open>message\<close> (\<^verbatim>\<open>q\<close>) is a truthy value that is not a string, is not validated: reading it
  raises \<^verbatim>\<open>AttributeError\<close> and the answer is status 500. In all these cases the handler
  has made no call to retrieval or generation (its list of calls is empty) and returns
  the state it was given.
\<close>

theorem blank_message_rejected:
  "((body = NoPayload \<or> (\<exists>p. body = Payload p \<and> blank_text (p_message p))) \<longrightarrow>
      chat e body \<sigma> = (\<sigma>, BadRequest ''Empty message'', []) \<and>
      chat_session e body S = (S, BadRequest ''Empty message'', []))
   \<and> ((body = NoPayload \<or> (\<exists>p. body = Payload p \<and> blank_text (p_q p))) \<longrightarrow>
      query_route md e body = (BadRequest ''Empty query'', []))
   \<and> ((body = NonObjectPayload \<or> (\<exists>p. body = Payload p \<and> p_message p = OtherValue)) \<longrightarrow>
      chat e body \<sigma> = (\<sigma>, ServerError AttributeError, []) \<and>
      chat_session e body S = (S, ServerError AttributeError, []))
   \<and> ((body = NonObjectPayload \<or> (\<exists>p. body = Payload p \<and> p_q p = OtherValue)) \<longrightarrow>
      query_route md e body = (ServerError AttributeError, []))"
proof (intro conjI impI)
  assume b: "body = NoPayload \<or> (\<exists>p. body = Payload p \<and> blank_text (p_message p))"
  show "chat e body \<sigma> = (\<sigma>, BadRequest ''Empty message'', [])"
    using b by (rule chat_blank)
  show "chat_session e body S = (S, BadRequest ''Empty message'', [])"
    using b by (rule chat_session_blank)
next
  assume "body = NoPayload \<or> (\<exists>p. body = Payload p \<and> blank_text (p_q p))"
  then show "query_route md e body = (BadRequest ''Empty query'', [])"
    by (rule query_blank)
next
  assume n: "body = NonObjectPayload \<or> (\<exists>p. body = Payload p \<and> p_message p = OtherValue)"
  show "chat e body \<sigma> = (\<sigma>, ServerError AttributeError, [])"
    using n by (rule not_text_raises)
  show "chat_session e body S = (S, ServerError AttributeError, [])"
    using n by (rule not_text_raises)
next
  assume "body = NonObjectPayload \<or> (\<exists>p. body = Payload p \<and> p_q p = OtherValue)"
  then show "query_route md e body = (ServerError AttributeError, [])"
    by (rule query_not_text_raises)
qed

theorem blank_message_rejected_witness:
  "chat answering_env NoPayload new_flask_session =
     (new_flask_session, BadRequest ''Empty message'', [])
   \<and> chat_session answering_env NoPayload Map.empty = (Map.empty, BadRequest ''Empty message'', [])
   \<and> query_route (\<lambda>a. a) answering_env NoPayload = (BadRequest ''Empty query'', [])
   \<and> chat answering_env (message_body [CHR '' '', CHR 0x09] IdFalsy) new_flask_session =
       (new_flask_session, BadRequest ''Empty message'', [])
   \<and> chat_session answering_env (message_body [CHR '' '', CHR 0x09] IdUnhashable) Map.empty =
       (Map.empty, BadRequest ''Empty message'', [])
   \<and> chat answering_env NonObjectPayload new_flask_session =
       (new_flask_session, ServerError AttributeError, [])
   \<and> chat_session answering_env NonObjectPayload Map.empty =
       (Map.empty, ServerError AttributeError, [])
   \<and> query_route (\<lambda>a. a) answering_env NonObjectPayload = (ServerError AttributeError, [])"
proof -
  note none = blank_message_rejected
    [of NoPayload answering_env new_flask_session Map.empty "\<lambda>a. a"]
  note blank1 = blank_message_rejected
    [of "message_body [CHR '' '', CHR 0x09] IdFalsy" answering_env new_flask_session
      Map.empty "\<lambda>a. a"]
  note blank2 = blank_message_rejected
    [of "message_body [CHR '' '', CHR 0x09] IdUnhashable" answering_env new_flask_session
      Map.empty "\<lambda>a. a"]
  note other = blank_message_rejected
    [of NonObjectPayload answering_env new_flask_session Map.empty "\<lambda>a. a"]
  have b: "\<exists>p. message_body [CHR '' '', CHR 0x09] i = Payload p \<and> blank_text (p_message p)" for i
    by (simp add: message_body_def blank_text_def isspace_def)
  have w1: "chat answering_env NoPayload new_flask_session =
       (new_flask_session, BadRequest ''Empty message'', []) \<and>
     chat_session answering_env NoPayload Map.empty = (Map.empty, BadRequest ''Empty message'', [])"
    using none [THEN conjunct1] by simp
  have w2: "query_route (\<lambda>a. a) answering_env NoPayload = (BadRequest ''Empty query'', [])"
    using none [THEN conjunct2, THEN conjunct1] by simp
  have w3: "chat answering_env (message_body [CHR '' '', CHR 0x09] IdFalsy) new_flask_session =
       (new_flask_session, BadRequest ''Empty message'', [])"
    using blank1 [THEN conjunct1] b [of IdFalsy] by blast
  have w4: "chat_session answering_env (message_body [CHR '' '', CHR 0x09] IdUnhashable)
       Map.empty = (Map.empty, BadRequest ''Empty message'', [])"
    using blank2 [THEN conjunct1] b [of IdUnhashable] by blast
  have w5: "chat answering_env NonObjectPayload new_flask_session =
       (new_flask_session, ServerError AttributeError, []) \<and>
     chat_session answering_env NonObjectPayload Map.empty =
       (Map.empty, ServerError AttributeError, [])"
    using other [THEN conjunct2, THEN conjunct2, THEN conjunct1] by simp
  have w6: "query_route (\<lambda>a. a) answering_env NonObjectPayload =
       (ServerError AttributeError, [])"
    using other [THEN conjunct2, THEN conjunct2, THEN conjunct2] by simp
  from w1 w2 w3 w4 w5 w6 show ?thesis by simp
qed

text \<open>
  Claim C8 as stated fails on a body that is a non-empty JSON array, a request with no
  message text at all: the answer is the status 500 of the global error handler, not the
  validation error.
\<close>

theorem non_object_body_counterexample:
  "chat answering_env NonObjectPayload new_flask_session =
     (new_flask_session, ServerError AttributeError, [])
   \<and> fst (snd (chat answering_env NonObjectPayload new_flask_session)) \<noteq>
       BadRequest ''Empty message''"
  by code_simp
section \<open>Turns of a conversation\<close>

lemma qa_pairs_append_user:
  "role u = User \<Longrightarrow> qa_pairs (ms @ [u]) = qa_pairs ms"
  by (induction ms rule: qa_pairs.induct) auto

lemma qa_pairs_append_turn:
  "role u = User \<Longrightarrow> role a = Assistant \<Longrightarrow>
   qa_pairs (ms @ [u, a]) = qa_pairs ms @ [(content u, content a)]"
  by (induction ms rule: qa_pairs.induct) auto

lemma unanswered_append_user:
  "role u = User \<Longrightarrow> unanswered (ms @ [u]) = unanswered ms + 1"
  by (induction ms rule: unanswered.induct) auto

lemma unanswered_append_turn:
  "role u = User \<Longrightarrow> role a = Assistant \<Longrightarrow> unanswered (ms @ [u, a]) = unanswered ms"
  by (induction ms rule: unanswered.induct) auto

lemma lockstep_user:
  "lockstep n ms ss \<Longrightarrow> role u = User \<Longrightarrow> lockstep n (ms @ [u]) ss"
  by (simp add: lockstep_def qa_pairs_append_user unanswered_append_user)

lemma lockstep_turn:
  "lockstep n ms ss \<Longrightarrow> role u = User \<Longrightarrow> role a = Assistant \<Longrightarrow> content u = Some q \<Longrightarrow>
   lockstep n (ms @ [u, a]) (ss @ [\<lparr>timestamp = t, query = q, answer = content a\<rparr>])"
  by (simp add: lockstep_def qa_pairs_append_turn unanswered_append_turn qa_of_sections_def)

lemma store_ok_upd:
  "store_ok S \<Longrightarrow> lockstep 0 (messages s) (sections s) \<Longrightarrow> store_ok (S(i \<mapsto> s))"
  by (simp add: store_ok_def)

lemma ensure_chat_session_cases:
  assumes "ensure_chat_session e i0 S = Inr (S1, s0, i)"
  shows "(S1 = S \<and> S i = Some s0 \<and> i0 = IdStr i \<and> i \<noteq> []) \<or>
         (S1 = S(uuid4 e \<mapsto> s0) \<and> i = uuid4 e \<and>
          s0 = \<lparr>sid = uuid4 e, title = TitleStr ''New chat'', created = utcnow_created e,
                 messages = [], sections = [], current_topic = []\<rparr>)"
  using assms
  by (auto simp: ensure_chat_session_def create_session_def Let_def
      split: id_field.splits option.splits if_splits)

text \<open>
  One \<^verbatim>\<open>/chat_session\<close> request with a non-blank message, written out: what is stored,
  answered and called in each of the four ways the turn can end.
\<close>

lemma chat_session_nonblank:
  assumes "body = Payload p" and "p_message p = StrValue m" and "strip m = u" and "u \<noteq> []"
    and "ensure_chat_session e (p_session_id p) S = Inr (S1, s0, i)"
  shows "chat_session e body S =
     (let topic = extract_topic u (Some (current_topic s0));
          s2 = s0\<lparr>messages := messages s0 @
                     [\<lparr>role = User, content = Some u, msg_meta = Some []\<rparr>],
                   current_topic := or_empty topic\<rparr>;
          ask = (\<lambda>docs. build_hybrid_messages u docs
                   (Some (memory_messages
                      (build_session_memory_sections (sections s0) topic 5 1500))))
      in case parse_top_k (p_top_k p) of
           Inl err \<Rightarrow> (S1(i \<mapsto> s2), ServerError (Raised err), [])
         | Inr k \<Rightarrow>
            (case search_azure e u k of
               Inl err \<Rightarrow> (S1(i \<mapsto> s2), ServerError (Raised err), [SearchCall u k])
             | Inr docs \<Rightarrow>
                (case completions_create e (ask docs) of
                   Inr ai \<Rightarrow>
                     (S1(i \<mapsto>
                        s2\<lparr>messages := messages s2 @
                              [\<lparr>role = Assistant, content = ai, msg_meta = Some []\<rparr>],
                            sections := sections s2 @
                              [\<lparr>timestamp = utcnow_answered e, query = u, answer = ai\<rparr>]\<rparr>),
                      SessionOk i ai (sources_of docs),
                      [SearchCall u k, CompletionCall (ask docs)])
                 | Inl err \<Rightarrow>
                     (S1(i \<mapsto> s2), ServerError (Raised err),
                      [SearchCall u k, CompletionCall (ask docs)]))))"
  using assms
  by (simp add: chat_session_def get_json_or_empty_def stripped_text_def Let_def
      split: sum.splits)

lemma chat_session_turn:
  assumes "body = Payload p" and "p_message p = StrValue m" and "strip m \<noteq> []"
    and "ensure_chat_session e (p_session_id p) S = Inr (S1, s0, i)"
  shows "\<exists>s'. fst (chat_session e body S) = S1(i \<mapsto> s') \<and>
     messages s' = messages s0 @
       [\<lparr>role = User, content = Some (strip m), msg_meta = Some []\<rparr>] @
       (case turn_answer e (p_top_k p) (strip m) (sections s0)
               (extract_topic (strip m) (Some (current_topic s0))) of
          None \<Rightarrow> []
        | Some ai \<Rightarrow> [\<lparr>role = Assistant, content = ai, msg_meta = Some []\<rparr>]) \<and>
     sections s' = sections s0 @
       (case turn_answer e (p_top_k p) (strip m) (sections s0)
               (extract_topic (strip m) (Some (current_topic s0))) of
          None \<Rightarrow> []
        | Some ai \<Rightarrow> [\<lparr>timestamp = utcnow_answered e, query = strip m, answer = ai\<rparr>])"
proof -
  note unf = chat_session_nonblank [OF assms(1) assms(2) refl assms(3) assms(4)]
  let ?ask = "\<lambda>docs. build_hybrid_messages (strip m) docs
                (Some (memory_messages (build_session_memory_sections (sections s0)
                   (extract_topic (strip m) (Some (current_topic s0))) 5 1500)))"
  let ?s2 = "s0\<lparr>messages := messages s0 @
                        [\<lparr>role = User, content = Some (strip m), msg_meta = Some []\<rparr>],
                 current_topic := or_empty (extract_topic (strip m) (Some (current_topic s0)))\<rparr>"
  show ?thesis
  proof (cases "turn_answer e (p_top_k p) (strip m) (sections s0)
               (extract_topic (strip m) (Some (current_topic s0)))")
    case None
    then consider (a) err where "parse_top_k (p_top_k p) = Inl err"
      | (b) k err where "parse_top_k (p_top_k p) = Inr k" "search_azure e (strip m) k = Inl err"
      | (c) k docs err where "parse_top_k (p_top_k p) = Inr k"
          "search_azure e (strip m) k = Inr docs" "completions_create e (?ask docs) = Inl err"
      by (auto simp: turn_answer_def split: sum.splits)
    then have "fst (chat_session e body S) = S1(i \<mapsto> ?s2)"
      by cases (simp_all add: unf Let_def)
    with None show ?thesis by fastforce
  next
    case (Some ai)
    then obtain k docs where "parse_top_k (p_top_k p) = Inr k"
      "search_azure e (strip m) k = Inr docs" "completions_create e (?ask docs) = Inr ai"
      by (auto simp: turn_answer_def split: sum.splits)
    then have "fst (chat_session e body S) =
        S1(i \<mapsto> ?s2\<lparr>messages := messages ?s2 @
                          [\<lparr>role = Assistant, content = ai, msg_meta = Some []\<rparr>],
                       sections := sections ?s2 @
                          [\<lparr>timestamp = utcnow_answered e, query = strip m, answer = ai\<rparr>]\<rparr>)"
      by (simp add: unf Let_def)
    with Some show ?thesis by fastforce
  qed
qed

lemma chat_turn:
  assumes "body = Payload p" and "p_message p = StrValue m" and "strip m \<noteq> []"
  shows "history (fst (chat e body \<sigma>)) =
       Some ((case history \<sigma> of None \<Rightarrow> [seed_message] | Some h \<Rightarrow> h) @
         [\<lparr>role = User, content = Some (strip m), msg_meta = None\<rparr>] @
         (case turn_answer e (p_top_k p) (strip m)
                 (case fs_sections \<sigma> of None \<Rightarrow> [] | Some ss \<Rightarrow> ss)
                 (extract_topic (strip m) (Some (or_empty (fs_current_topic \<sigma>)))) of
            None \<Rightarrow> []
          | Some ai \<Rightarrow> [\<lparr>role = Assistant, content = ai, msg_meta = None\<rparr>]))
     \<and> fs_sections (fst (chat e body \<sigma>)) =
       Some ((case fs_sections \<sigma> of None \<Rightarrow> [] | Some ss \<Rightarrow> ss) @
         (case turn_answer e (p_top_k p) (strip m)
                 (case fs_sections \<sigma> of None \<Rightarrow> [] | Some ss \<Rightarrow> ss)
                 (extract_topic (strip m) (Some (or_empty (fs_current_topic \<sigma>)))) of
            None \<Rightarrow> []
          | Some ai \<Rightarrow> [\<lparr>timestamp = utcnow_answered e, query = strip m, answer = ai\<rparr>]))"
proof -
  note unf = chat_nonblank [OF assms(1) assms(2) refl assms(3), of e \<sigma>]
  let ?ss0 = "case fs_sections \<sigma> of None \<Rightarrow> [] | Some ss \<Rightarrow> ss"
  let ?topic = "extract_topic (strip m) (Some (or_empty (fs_current_topic \<sigma>)))"
  let ?ask = "\<lambda>docs. build_hybrid_messages (strip m) docs
                (Some (memory_messages (build_session_memory_sections ?ss0 ?topic 5 1500)))"
  show ?thesis
  proof (cases "turn_answer e (p_top_k p) (strip m) ?ss0 ?topic")
    case None
    then consider (a) err where "parse_top_k (p_top_k p) = Inl err"
      | (b) k err where "parse_top_k (p_top_k p) = Inr k" "search_azure e (strip m) k = Inl err"
      | (c) k docs err where "parse_top_k (p_top_k p) = Inr k"
          "search_azure e (strip m) k = Inr docs" "completions_create e (?ask docs) = Inl err"
      by (auto simp: turn_answer_def split: sum.splits)
    then show ?thesis
      using None by cases (simp_all add: unf Let_def)
  next
    case (Some ai)
    then obtain k docs where "parse_top_k (p_top_k p) = Inr k"
      "search_azure e (strip m) k = Inr docs" "completions_create e (?ask docs) = Inr ai"
      by (auto simp: turn_answer_def split: sum.splits)
    with Some show ?thesis
      by (simp add: unf Let_def)
  qed
qed

lemma chat_session_other_requests:
  "chat_session e body S = (S, ServerError AttributeError, []) \<or>
   chat_session e body S = (S, ServerError TypeError, []) \<or>
   chat_session e body S = (S, BadRequest ''Empty message'', []) \<or>
   (\<exists>p m S1 s0 i. body = Payload p \<and> p_message p = StrValue m \<and> strip m \<noteq> [] \<and>
      ensure_chat_session e (p_session_id p) S = Inr (S1, s0, i))"
proof (cases body)
  case NoPayload
  then show ?thesis
    by (simp add: chat_session_def get_json_or_empty_def stripped_text_def)
next
  case NonObjectPayload
  then show ?thesis
    by (simp add: chat_session_def get_json_or_empty_def)
next
  case (Payload p)
  show ?thesis
  proof (cases "p_message p")
    case FalsyValue
    with Payload show ?thesis
      by (simp add: chat_session_def get_json_or_empty_def stripped_text_def)
  next
    case OtherValue
    with Payload show ?thesis
      by (simp add: chat_session_def get_json_or_empty_def stripped_text_def)
  next
    case (StrValue m)
    show ?thesis
    proof (cases "strip m = []")
      case True
      with Payload StrValue show ?thesis
        by (simp add: chat_session_def get_json_or_empty_def stripped_text_def)
    next
      case False
      show ?thesis
      proof (cases "ensure_chat_session e (p_session_id p) S")
        case (Inl err)
        then have "err = TypeError"
          by (auto simp: ensure_chat_session_def Let_def
              split: id_field.splits if_splits option.splits)
        with Inl Payload StrValue False show ?thesis
          by (simp add: chat_session_def get_json_or_empty_def stripped_text_def)
      next
        case (Inr t)
        then obtain S1 s0 i where "ensure_chat_session e (p_session_id p) S = Inr (S1, s0, i)"
          by (cases t) auto
        with Payload StrValue False show ?thesis by blast
      qed
    qed
  qed
qed

lemma chat_session_keeps_lockstep:
  assumes "store_ok S"
  shows "store_ok (fst (chat_session e body S))"
proof -
  consider (same) "fst (chat_session e body S) = S"
    | (turn) "\<exists>p m S1 s0 i. body = Payload p \<and> p_message p = StrValue m \<and> strip m \<noteq> [] \<and>
      ensure_chat_session e (p_session_id p) S = Inr (S1, s0, i)"
    using chat_session_other_requests [of e body S] by fastforce
  then show ?thesis
  proof cases
  case same
  with assms show ?thesis by simp
next
  case turn
  then have "\<exists>p m S1 s0 i. body = Payload p \<and> p_message p = StrValue m \<and> strip m \<noteq> [] \<and>
      ensure_chat_session e (p_session_id p) S = Inr (S1, s0, i)" .
  then obtain p m S1 s0 i where b: "body = Payload p" "p_message p = StrValue m"
    "strip m \<noteq> []" and en: "ensure_chat_session e (p_session_id p) S = Inr (S1, s0, i)"
    by blast
  from ensure_chat_session_cases [OF en]
  have "lockstep 0 (messages s0) (sections s0) \<and> store_ok S1"
  proof
    assume "S1 = S \<and> S i = Some s0 \<and> p_session_id p = IdStr i \<and> i \<noteq> []"
    with assms show ?thesis unfolding store_ok_def by blast
  next
    assume a: "S1 = S(uuid4 e \<mapsto> s0) \<and> i = uuid4 e \<and>
          s0 = \<lparr>sid = uuid4 e, title = TitleStr ''New chat'', created = utcnow_created e,
                 messages = [], sections = [], current_topic = []\<rparr>"
    then have "lockstep 0 (messages s0) (sections s0)"
      by (simp add: lockstep_def qa_of_sections_def)
    with a assms show ?thesis by (simp add: store_ok_upd)
  qed
  then have s0: "lockstep 0 (messages s0) (sections s0)" and S1: "store_ok S1"
    by simp_all
  let ?U = "\<lparr>role = User, content = Some (strip m), msg_meta = Some []\<rparr> :: stored_message"
  from chat_session_turn [OF b en]
  obtain s' where eq: "fst (chat_session e body S) = S1(i \<mapsto> s')"
    and turn: "(messages s' = messages s0 @ [?U] \<and> sections s' = sections s0) \<or>
            (\<exists>a. messages s' = messages s0 @
                     [?U, \<lparr>role = Assistant, content = a, msg_meta = Some []\<rparr>] \<and>
                 sections s' = sections s0 @
                   [\<lparr>timestamp = utcnow_answered e, query = strip m, answer = a\<rparr>])"
    by (cases "turn_answer e (p_top_k p) (strip m) (sections s0)
               (extract_topic (strip m) (Some (current_topic s0)))") auto
  from turn have "lockstep 0 (messages s') (sections s')"
  proof
    assume "messages s' = messages s0 @ [?U] \<and> sections s' = sections s0"
    with s0 show ?thesis by (simp add: lockstep_user)
  next
    assume "\<exists>a. messages s' = messages s0 @
                     [?U, \<lparr>role = Assistant, content = a, msg_meta = Some []\<rparr>] \<and>
                 sections s' = sections s0 @
                   [\<lparr>timestamp = utcnow_answered e, query = strip m, answer = a\<rparr>]"
    then obtain a where m: "messages s' = messages s0 @
                     [?U, \<lparr>role = Assistant, content = a, msg_meta = Some []\<rparr>]"
      and s: "sections s' = sections s0 @
                   [\<lparr>timestamp = utcnow_answered e, query = strip m, answer = a\<rparr>]"
      by blast
    from lockstep_turn [OF s0, of ?U "\<lparr>role = Assistant, content = a, msg_meta = Some []\<rparr>"
        "strip m" "utcnow_answered e"]
    show ?thesis by (simp add: m s)
  qed
  with S1 eq show ?thesis by (simp add: store_ok_upd)
qed
qed

lemma create_route_keeps_lockstep:
  "store_ok S \<Longrightarrow> store_ok (fst (create_session_route e body S))"
  by (auto simp: create_session_route_def create_session_def Let_def store_ok_def lockstep_def
      qa_of_sections_def split: sum.splits)

lemma rename_keeps_lockstep:
  "store_ok S \<Longrightarrow> store_ok (fst (rename_session i body S))"
  by (auto simp: rename_session_def Let_def store_ok_def split: option.splits sum.splits)

lemma run_multi_keeps_lockstep:
  "store_ok S \<Longrightarrow> store_ok (run_multi reqs S)"
proof (induction reqs arbitrary: S)
  case Nil
  then show ?case by simp
next
  case (Cons r reqs)
  then show ?case
    by (cases r)
       (simp_all add: chat_session_keeps_lockstep create_route_keeps_lockstep
         rename_keeps_lockstep)
qed

lemma chat_other_requests:
  "chat e body \<sigma> = (\<sigma>, ServerError AttributeError, []) \<or>
   chat e body \<sigma> = (\<sigma>, BadRequest ''Empty message'', []) \<or>
   (\<exists>p m. body = Payload p \<and> p_message p = StrValue m \<and> strip m \<noteq> [])"
proof (cases body)
  case NoPayload
  then show ?thesis
    by (simp add: chat_def get_json_or_empty_def stripped_text_def)
next
  case NonObjectPayload
  then show ?thesis
    by (simp add: chat_def get_json_or_empty_def)
next
  case (Payload p)
  show ?thesis
  proof (cases "p_message p")
    case FalsyValue
    with Payload show ?thesis
      by (simp add: chat_def get_json_or_empty_def stripped_text_def)
  next
    case OtherValue
    with Payload show ?thesis
      by (simp add: chat_def get_json_or_empty_def stripped_text_def)
  next
    case (StrValue m)
    with Payload show ?thesis
      by (cases "strip m = []") (simp_all add: chat_def get_json_or_empty_def stripped_text_def)
  qed
qed

lemma chat_keeps_lockstep:
  assumes "flask_ok \<sigma>"
  shows "flask_ok (fst (chat e body \<sigma>))"
proof -
  consider (same) "fst (chat e body \<sigma>) = \<sigma>"
    | (turn) "\<exists>p m. body = Payload p \<and> p_message p = StrValue m \<and> strip m \<noteq> []"
    using chat_other_requests [of e body \<sigma>] by fastforce
  then show ?thesis
  proof cases
  case same
  with assms show ?thesis by simp
next
  case turn
  then obtain p m where b: "body = Payload p" "p_message p = StrValue m" "strip m \<noteq> []"
    by blast
  let ?h0 = "case history \<sigma> of None \<Rightarrow> [seed_message] | Some h \<Rightarrow> h"
  let ?ss0 = "case fs_sections \<sigma> of None \<Rightarrow> [] | Some ss \<Rightarrow> ss"
  let ?U = "\<lparr>role = User, content = Some (strip m), msg_meta = None\<rparr> :: stored_message"
  have l: "lockstep 1 ?h0 ?ss0"
    using assms
    by (auto simp: flask_ok_def lockstep_def seed_message_def qa_of_sections_def)
  have l1: "lockstep 1 (?h0 @ [?U]) ?ss0"
    using l by (simp add: lockstep_user)
  have l2: "lockstep 1 (?h0 @ [?U, \<lparr>role = Assistant, content = a, msg_meta = None\<rparr>])
      (?ss0 @ [\<lparr>timestamp = t, query = strip m, answer = a\<rparr>])" for a t
    using lockstep_turn [OF l, of ?U "\<lparr>role = Assistant, content = a, msg_meta = None\<rparr>"
        "strip m" t]
    by simp
  from chat_turn [OF b, of e \<sigma>] l1 l2 show ?thesis
    by (cases "turn_answer e (p_top_k p) (strip m) ?ss0
               (extract_topic (strip m) (Some (or_empty (fs_current_topic \<sigma>))))")
       (simp_all add: flask_ok_def)
qed
qed

lemma run_single_keeps_lockstep:
  "flask_ok \<sigma> \<Longrightarrow> flask_ok (run_single reqs \<sigma>)"
proof (induction reqs arbitrary: \<sigma>)
  case Nil
  then show ?case by simp
next
  case (Cons r reqs)
  show ?case
  proof (cases r)
    case (ChatRequest e body)
    with Cons.IH [OF chat_keeps_lockstep [OF Cons.prems]] show ?thesis by simp
  next
    case ResetRequest
    have "flask_ok (reset_history \<sigma>)"
      by (simp add: flask_ok_def reset_history_def)
    with ResetRequest Cons.IH show ?thesis by simp
  qed
qed

lemma lockstep_of_runs:
  "(\<forall>i s. run_multi reqs Map.empty i = Some s \<longrightarrow>
      qa_of_sections (sections s) = qa_pairs (messages s) \<and>
      length (messages s) = 2 * length (sections s) + unanswered (messages s))
   \<and> (\<forall>h ss. history (run_single rs new_flask_session) = Some h \<longrightarrow>
        fs_sections (run_single rs new_flask_session) = Some ss \<longrightarrow>
        qa_of_sections ss = qa_pairs h \<and>
        length h = 1 + 2 * length ss + unanswered h)"
proof -
  have "store_ok Map.empty"
    by (simp add: store_ok_def)
  then have m: "store_ok (run_multi reqs Map.empty)"
    by (rule run_multi_keeps_lockstep)
  have "flask_ok new_flask_session"
    by (simp add: flask_ok_def new_flask_session_def)
  then have s: "flask_ok (run_single rs new_flask_session)"
    by (rule run_single_keeps_lockstep)
  from m s show ?thesis
    by (auto simp: store_ok_def flask_ok_def lockstep_def)
qed
text \<open>
  Claim C1, as amended. A turn is not recorded all or nothing. In a named conversation and
  in the single conversation alike, a submit-message request with a non-blank message
  appends the user message in any case, and appends the assistant message and the one
  section, together, exactly when the turn gets its answer: when \<^verbatim>\<open>top_k\<close> cannot be read,
  the retrieval raises or the generation call fails, the user message stays recorded
  with nothing behind it. After any sequence of requests, failed ones included, this
  holds. For every named conversation reached from the empty store by submit-message,
  create and rename requests: the query/answer pairs of its sections are, in order,
  exactly the pairs of a user message directly followed by an assistant message, and its
  message count is twice its section count plus the number of unanswered user messages.
  For the single conversation reached from a new session by submit-message and reset
  requests the same holds with one more message, the seed.
\<close>

theorem turns_recorded_and_in_lockstep:
  "(body = Payload p \<longrightarrow> p_message p = StrValue m \<longrightarrow> strip m \<noteq> [] \<longrightarrow>
    ensure_chat_session e (p_session_id p) S = Inr (S1, s0, i) \<longrightarrow>
      (\<exists>s'. fst (chat_session e body S) = S1(i \<mapsto> s') \<and>
         messages s' = messages s0 @
           [\<lparr>role = User, content = Some (strip m), msg_meta = Some []\<rparr>] @
           (case turn_answer e (p_top_k p) (strip m) (sections s0)
                   (extract_topic (strip m) (Some (current_topic s0))) of
              None \<Rightarrow> []
            | Some ai \<Rightarrow> [\<lparr>role = Assistant, content = ai, msg_meta = Some []\<rparr>]) \<and>
         sections s' = sections s0 @
           (case turn_answer e (p_top_k p) (strip m) (sections s0)
                   (extract_topic (strip m) (Some (current_topic s0))) of
              None \<Rightarrow> []
            | Some ai \<Rightarrow> [\<lparr>timestamp = utcnow_answered e, query = strip m, answer = ai\<rparr>])))
   \<and> (body = Payload p \<longrightarrow> p_message p = StrValue m \<longrightarrow> strip m \<noteq> [] \<longrightarrow>
       history (fst (chat e body \<sigma>)) =
         Some ((case history \<sigma> of None \<Rightarrow> [seed_message] | Some h \<Rightarrow> h) @
           [\<lparr>role = User, content = Some (strip m), msg_meta = None\<rparr>] @
           (case turn_answer e (p_top_k p) (strip m)
                   (case fs_sections \<sigma> of None \<Rightarrow> [] | Some ss \<Rightarrow> ss)
                   (extract_topic (strip m) (Some (or_empty (fs_current_topic \<sigma>)))) of
              None \<Rightarrow> []
            | Some ai \<Rightarrow> [\<lparr>role = Assistant, content = ai, msg_meta = None\<rparr>])) \<and>
       fs_sections (fst (chat e body \<sigma>)) =
         Some ((case fs_sections \<sigma> of None \<Rightarrow> [] | Some ss \<Rightarrow> ss) @
           (case turn_answer e (p_top_k p) (strip m)
                   (case fs_sections \<sigma> of None \<Rightarrow> [] | Some ss \<Rightarrow> ss)
                   (extract_topic (strip m) (Some (or_empty (fs_current_topic \<sigma>)))) of
              None \<Rightarrow> []
            | Some ai \<Rightarrow> [\<lparr>timestamp = utcnow_answered e, query = strip m, answer = ai\<rparr>])))
   \<and> (\<forall>j s. run_multi reqs Map.empty j = Some s \<longrightarrow>
        qa_of_sections (sections s) = qa_pairs (messages s) \<and>
        length (messages s) = 2 * length (sections s) + unanswered (messages s))
   \<and> (\<forall>h ss. history (run_single rs new_flask_session) = Some h \<longrightarrow>
        fs_sections (run_single rs new_flask_session) = Some ss \<longrightarrow>
        qa_of_sections ss = qa_pairs h \<and>
        length h = 1 + 2 * length ss + unanswered h)"
proof (intro conjI impI)
  assume "body = Payload p" "p_message p = StrValue m" "strip m \<noteq> []"
    "ensure_chat_session e (p_session_id p) S = Inr (S1, s0, i)"
  then show "\<exists>s'. fst (chat_session e body S) = S1(i \<mapsto> s') \<and>
         messages s' = messages s0 @
           [\<lparr>role = User, content = Some (strip m), msg_meta = Some []\<rparr>] @
           (case turn_answer e (p_top_k p) (strip m) (sections s0)
                   (extract_topic (strip m) (Some (current_topic s0))) of
              None \<Rightarrow> []
            | Some ai \<Rightarrow> [\<lparr>role = Assistant, content = ai, msg_meta = Some []\<rparr>]) \<and>
         sections s' = sections s0 @
           (case turn_answer e (p_top_k p) (strip m) (sections s0)
                   (extract_topic (strip m) (Some (current_topic s0))) of
              None \<Rightarrow> []
            | Some ai \<Rightarrow> [\<lparr>timestamp = utcnow_answered e, query = strip m, answer = ai\<rparr>])"
    by (rule chat_session_turn)
next
  assume b: "body = Payload p" "p_message p = StrValue m" "strip m \<noteq> []"
  show "history (fst (chat e body \<sigma>)) =
         Some ((case history \<sigma> of None \<Rightarrow> [seed_message] | Some h \<Rightarrow> h) @
           [\<lparr>role = User, content = Some (strip m), msg_meta = None\<rparr>] @
           (case turn_answer e (p_top_k p) (strip m)
                   (case fs_sections \<sigma> of None \<Rightarrow> [] | Some ss \<Rightarrow> ss)
                   (extract_topic (strip m) (Some (or_empty (fs_current_topic \<sigma>)))) of
              None \<Rightarrow> []
            | Some ai \<Rightarrow> [\<lparr>role = Assistant, content = ai, msg_meta = None\<rparr>]))"
    using chat_turn [OF b, of e \<sigma>] by (rule conjunct1)
  show "fs_sections (fst (chat e body \<sigma>)) =
         Some ((case fs_sections \<sigma> of None \<Rightarrow> [] | Some ss \<Rightarrow> ss) @
           (case turn_answer e (p_top_k p) (strip m)
                   (case fs_sections \<sigma> of None \<Rightarrow> [] | Some ss \<Rightarrow> ss)
                   (extract_topic (strip m) (Some (or_empty (fs_current_topic \<sigma>)))) of
              None \<Rightarrow> []
            | Some ai \<Rightarrow> [\<lparr>timestamp = utcnow_answered e, query = strip m, answer = ai\<rparr>]))"
    using chat_turn [OF b, of e \<sigma>] by (rule conjunct2)
next
  show "\<forall>j s. run_multi reqs Map.empty j = Some s \<longrightarrow>
        qa_of_sections (sections s) = qa_pairs (messages s) \<and>
        length (messages s) = 2 * length (sections s) + unanswered (messages s)"
    using lockstep_of_runs [of reqs rs] by (rule conjunct1)
  show "\<forall>h ss. history (run_single rs new_flask_session) = Some h \<longrightarrow>
        fs_sections (run_single rs new_flask_session) = Some ss \<longrightarrow>
        qa_of_sections ss = qa_pairs h \<and>
        length h = 1 + 2 * length ss + unanswered h"
    using lockstep_of_runs [of reqs rs] by (rule conjunct2)
qed

lemma example_strip: "strip ''hi'' = ''hi''"
  by code_simp

lemma example_turns:
  "turn_answer failing_env TopKMissing ''hi'' secs topic = None"
  "turn_answer answering_env TopKMissing ''hi'' secs topic =
     Some (Some ''Cupid Limited is a manufacturer'')"
  by (simp_all add: turn_answer_def parse_top_k_def search_azure_example)
     (simp_all add: failing_env_def answering_env_def)

theorem turns_recorded_and_in_lockstep_witness:
  "(\<exists>s'. fst (chat_session failing_env (message_body ''hi'' IdFalsy) Map.empty) =
           (Map.empty(''u1'' \<mapsto>
              \<lparr>sid = ''u1'', title = TitleStr ''New chat'', created = ''t0'', messages = [],
                sections = [], current_topic = []\<rparr>))(''u1'' \<mapsto> s') \<and>
         messages s' = [\<lparr>role = User, content = Some ''hi'', msg_meta = Some []\<rparr>] \<and>
         sections s' = [])
   \<and> history (fst (chat answering_env (message_body ''hi'' IdFalsy) new_flask_session)) =
       Some [seed_message,
             \<lparr>role = User, content = Some ''hi'', msg_meta = None\<rparr>,
             \<lparr>role = Assistant, content = Some ''Cupid Limited is a manufacturer'',
               msg_meta = None\<rparr>]
   \<and> fs_sections (fst (chat answering_env (message_body ''hi'' IdFalsy) new_flask_session)) =
       Some [\<lparr>timestamp = ''t1'', query = ''hi'',
               answer = Some ''Cupid Limited is a manufacturer''\<rparr>]
   \<and> length
       [\<lparr>role = User, content = Some ''Cupid Limited'', msg_meta = Some []\<rparr>,
        \<lparr>role = User, content = Some ''who is the owner'', msg_meta = Some []\<rparr>,
        \<lparr>role = Assistant, content = Some ''Cupid Limited is a manufacturer'',
          msg_meta = Some []\<rparr> :: stored_message] =
       2 * length
         [\<lparr>timestamp = ''t1'', query = ''who is the owner'',
           answer = Some ''Cupid Limited is a manufacturer''\<rparr>] +
       unanswered
         [\<lparr>role = User, content = Some ''Cupid Limited'', msg_meta = Some []\<rparr>,
          \<lparr>role = User, content = Some ''who is the owner'', msg_meta = Some []\<rparr>,
          \<lparr>role = Assistant, content = Some ''Cupid Limited is a manufacturer'',
            msg_meta = Some []\<rparr>]
   \<and> length [seed_message, \<lparr>role = User, content = Some ''hi'', msg_meta = None\<rparr>] =
       1 + 2 * length ([] :: section list) +
       unanswered [seed_message, \<lparr>role = User, content = Some ''hi'', msg_meta = None\<rparr>]"
proof -
  let ?p = "\<lparr>p_message = StrValue ''hi'', p_q = FalsyValue, p_session_id = IdFalsy,
             p_title = FalsyValue, p_top_k = TopKMissing\<rparr>"
  let ?F = "\<lparr>sid = ''u1'', title = TitleStr ''New chat'', created = ''t0'', messages = [],
             sections = [], current_topic = []\<rparr>"
  let ?reqs = "[ChatSessionRequest failing_env (message_body ''Cupid Limited'' IdFalsy),
                ChatSessionRequest answering_env
                  (message_body ''who is the owner'' (IdStr ''u1''))]"
  let ?rs = "[ChatRequest answering_env (message_body ''Cupid Limited'' IdFalsy), ResetRequest,
              ChatRequest failing_env (message_body ''hi'' IdFalsy)]"
  note t = turns_recorded_and_in_lockstep
    [where body = "message_body ''hi'' IdFalsy" and p = ?p and m = "''hi''"
       and reqs = ?reqs and rs = ?rs]
  have clock: "utcnow_answered answering_env = ''t1''"
    by (simp add: answering_env_def)
  have body: "message_body ''hi'' IdFalsy = Payload ?p"
    by (simp add: message_body_def)
  have msg: "p_message ?p = StrValue ''hi''"
    by simp
  have ne: "strip ''hi'' \<noteq> []"
    by (simp add: example_strip)
  have en: "ensure_chat_session failing_env (p_session_id ?p) Map.empty =
      Inr (Map.empty(''u1'' \<mapsto> ?F), ?F, ''u1'')"
    by (simp add: ensure_chat_session_def create_session_def failing_env_def Let_def)
  from t [THEN conjunct1, rule_format, OF body msg ne en]
  have w1: "\<exists>s'. fst (chat_session failing_env (message_body ''hi'' IdFalsy) Map.empty) =
           (Map.empty(''u1'' \<mapsto> ?F))(''u1'' \<mapsto> s') \<and>
         messages s' = [\<lparr>role = User, content = Some ''hi'', msg_meta = Some []\<rparr>] \<and>
         sections s' = []"
    by (simp add: example_strip example_turns)
  from t [where e = answering_env and \<sigma> = new_flask_session,
      THEN conjunct2, THEN conjunct1, rule_format, OF body msg ne]
  have w2: "history (fst (chat answering_env (message_body ''hi'' IdFalsy) new_flask_session)) =
       Some [seed_message,
             \<lparr>role = User, content = Some ''hi'', msg_meta = None\<rparr>,
             \<lparr>role = Assistant, content = Some ''Cupid Limited is a manufacturer'',
               msg_meta = None\<rparr>]
     \<and> fs_sections (fst (chat answering_env (message_body ''hi'' IdFalsy) new_flask_session)) =
       Some [\<lparr>timestamp = ''t1'', query = ''hi'',
               answer = Some ''Cupid Limited is a manufacturer''\<rparr>]"
    by (simp add: example_strip example_turns new_flask_session_def clock)
  have a: "run_multi ?reqs Map.empty ''u1'' =
      Some \<lparr>sid = ''u1'', title = TitleStr ''New chat'', created = ''t0'',
             messages =
               [\<lparr>role = User, content = Some ''Cupid Limited'', msg_meta = Some []\<rparr>,
                \<lparr>role = User, content = Some ''who is the owner'', msg_meta = Some []\<rparr>,
                \<lparr>role = Assistant, content = Some ''Cupid Limited is a manufacturer'',
                  msg_meta = Some []\<rparr>],
             sections =
               [\<lparr>timestamp = ''t1'', query = ''who is the owner'',
                 answer = Some ''Cupid Limited is a manufacturer''\<rparr>],
             current_topic = ''cupid limited''\<rparr>"
    by code_simp
  have b: "history (run_single ?rs new_flask_session) =
      Some [seed_message, \<lparr>role = User, content = Some ''hi'', msg_meta = None\<rparr>]"
    by code_simp
  have c: "fs_sections (run_single ?rs new_flask_session) = Some []"
    by code_simp
  from t [THEN conjunct2, THEN conjunct2, THEN conjunct1, rule_format, OF a]
  have w3: "length
       [\<lparr>role = User, content = Some ''Cupid Limited'', msg_meta = Some []\<rparr>,
        \<lparr>role = User, content = Some ''who is the owner'', msg_meta = Some []\<rparr>,
        \<lparr>role = Assistant, content = Some ''Cupid Limited is a manufacturer'',
          msg_meta = Some []\<rparr> :: stored_message] =
       2 * length
         [\<lparr>timestamp = ''t1'', query = ''who is the owner'',
           answer = Some ''Cupid Limited is a manufacturer''\<rparr>] +
       unanswered
         [\<lparr>role = User, content = Some ''Cupid Limited'', msg_meta = Some []\<rparr>,
          \<lparr>role = User, content = Some ''who is the owner'', msg_meta = Some []\<rparr>,
          \<lparr>role = Assistant, content = Some ''Cupid Limited is a manufacturer'',
            msg_meta = Some []\<rparr>]"
    by simp
  from t [THEN conjunct2, THEN conjunct2, THEN conjunct2, rule_format, OF b c]
  have w4: "length [seed_message, \<lparr>role = User, content = Some ''hi'', msg_meta = None\<rparr>] =
       1 + 2 * length ([] :: section list) +
       unanswered [seed_message, \<lparr>role = User, content = Some ''hi'', msg_meta = None\<rparr>]"
    by simp
  from w1 w2 w3 w4 show ?thesis by blast
qed

text \<open>
  Claim C1 as stated fails after one request whose generation call fails: the new
  conversation holds the user message and no section, one message against twice zero
  sections.
\<close>

theorem failed_turn_keeps_user_message_counterexample:
  "run_multi [ChatSessionRequest failing_env (message_body ''hi'' IdFalsy)] Map.empty ''u1'' =
     Some \<lparr>sid = ''u1'', title = TitleStr ''New chat'', created = ''t0'',
            messages = [\<lparr>role = User, content = Some ''hi'', msg_meta = Some []\<rparr>],
            sections = [], current_topic = ''hi''\<rparr>
   \<and> length (messages (the (run_multi
         [ChatSessionRequest failing_env (message_body ''hi'' IdFalsy)] Map.empty ''u1''))) \<noteq>
       2 * length (sections (the (run_multi
         [ChatSessionRequest failing_env (message_body ''hi'' IdFalsy)] Map.empty ''u1'')))"
  by code_simp
section \<open>Sources of a successful answer\<close>

lemma sources_of_fields:
  "map entry_doc_id (sources_of ds) = map doc_id ds"
  "map entry_score (sources_of ds) = map score ds"
  "length (sources_of ds) = length ds"
  by (simp_all add: sources_of_def comp_def)

lemma chat_answered:
  assumes "body = Payload p" and "p_message p = StrValue m" and "strip m \<noteq> []"
    and "parse_top_k (p_top_k p) = Inr k" and "search_azure e (strip m) k = Inr docs"
  shows "\<exists>mem.
     snd (snd (chat e body \<sigma>)) =
       [SearchCall (strip m) k,
        CompletionCall (build_hybrid_messages (strip m) docs (Some (memory_messages mem)))] \<and>
     (\<forall>ai. completions_create e
              (build_hybrid_messages (strip m) docs (Some (memory_messages mem))) = Inr ai \<longrightarrow>
           fst (snd (chat e body \<sigma>)) = ChatOk (uuid4 e) ai (sources_of docs))"
proof -
  note unf = chat_nonblank [OF assms(1) assms(2) refl assms(3), of e \<sigma>]
  let ?mem = "build_session_memory_sections
      (case fs_sections \<sigma> of None \<Rightarrow> [] | Some ss \<Rightarrow> ss)
      (extract_topic (strip m) (Some (or_empty (fs_current_topic \<sigma>)))) 5 1500"
  have "snd (snd (chat e body \<sigma>)) =
       [SearchCall (strip m) k,
        CompletionCall (build_hybrid_messages (strip m) docs (Some (memory_messages ?mem)))] \<and>
     (\<forall>ai. completions_create e
              (build_hybrid_messages (strip m) docs (Some (memory_messages ?mem))) = Inr ai \<longrightarrow>
           fst (snd (chat e body \<sigma>)) = ChatOk (uuid4 e) ai (sources_of docs))"
    using assms(4) assms(5)
    by (cases "completions_create e
          (build_hybrid_messages (strip m) docs (Some (memory_messages ?mem)))")
       (simp_all add: unf Let_def)
  then show ?thesis by blast
qed

lemma chat_session_answered:
  assumes "body = Payload p" and "p_message p = StrValue m" and "strip m \<noteq> []"
    and "ensure_chat_session e (p_session_id p) S = Inr (S1, s0, i)"
    and "parse_top_k (p_top_k p) = Inr k" and "search_azure e (strip m) k = Inr docs"
  shows "\<exists>mem.
     snd (snd (chat_session e body S)) =
       [SearchCall (strip m) k,
        CompletionCall (build_hybrid_messages (strip m) docs (Some (memory_messages mem)))] \<and>
     (\<forall>ai. completions_create e
              (build_hybrid_messages (strip m) docs (Some (memory_messages mem))) = Inr ai \<longrightarrow>
           fst (snd (chat_session e body S)) = SessionOk i ai (sources_of docs))"
proof -
  note unf = chat_session_nonblank [OF assms(1) assms(2) refl assms(3) assms(4)]
  let ?mem = "build_session_memory_sections (sections s0)
      (extract_topic (strip m) (Some (current_topic s0))) 5 1500"
  have "snd (snd (chat_session e body S)) =
       [SearchCall (strip m) k,
        CompletionCall (build_hybrid_messages (strip m) docs (Some (memory_messages ?mem)))] \<and>
     (\<forall>ai. completions_create e
              (build_hybrid_messages (strip m) docs (Some (memory_messages ?mem))) = Inr ai \<longrightarrow>
           fst (snd (chat_session e body S)) = SessionOk i ai (sources_of docs))"
    using assms(5) assms(6)
    by (cases "completions_create e
          (build_hybrid_messages (strip m) docs (Some (memory_messages ?mem)))")
       (simp_all add: unf Let_def)
  then show ?thesis by blast
qed

lemma chat_ok_sources:
  assumes ok: "fst (snd (chat e body \<sigma>)) = ChatOk mid ans srcs"
  shows "\<exists>q k docs ms. snd (snd (chat e body \<sigma>)) = [SearchCall q k, CompletionCall ms] \<and>
           search_azure e q k = Inr docs \<and> completions_create e ms = Inr ans \<and>
           srcs = sources_of docs"
proof -
  from chat_other_requests [of e body \<sigma>] ok
  obtain p m where b: "body = Payload p" "p_message p = StrValue m" "strip m \<noteq> []"
    by auto
  note unf = chat_nonblank [OF b(1) b(2) refl b(3), of e \<sigma>]
  from ok show ?thesis
    by (auto simp: unf Let_def split: sum.splits)
qed

lemma chat_session_ok_sources:
  assumes ok: "fst (snd (chat_session e body S)) = SessionOk i ans srcs"
  shows "\<exists>q k docs ms. snd (snd (chat_session e body S)) = [SearchCall q k, CompletionCall ms] \<and>
           search_azure e q k = Inr docs \<and> completions_create e ms = Inr ans \<and>
           srcs = sources_of docs"
proof -
  from chat_session_other_requests [of e body S] ok
  obtain p m S1 s0 j where b: "body = Payload p" "p_message p = StrValue m" "strip m \<noteq> []"
    "ensure_chat_session e (p_session_id p) S = Inr (S1, s0, j)"
    by auto
  note unf = chat_session_nonblank [OF b(1) b(2) refl b(3) b(4)]
  from ok show ?thesis
    by (auto simp: unf Let_def split: sum.splits)
qed

text \<open>
  Claim C9. A submit-message request succeeds when its message is not blank, \<^verbatim>\<open>top_k\<close> is
  read, the retrieval returns its documents and the generation call returns. Then the
  handler has called the retrieval once and the generation provider once, on the prompt
  built from the message, those documents and the session memory, and the response of
  \<^verbatim>\<open>/chat\<close> or \<^verbatim>\<open>/chat_session\<close> is the status-200 body whose source list has one entry
  for every document the retrieval returned, in the same order, carrying the document's
  id, source and score. The list is as long as the retrieval result: no document is left
  out, whatever its score and whatever went into the context. Conversely a status-200
  body comes from such a run only.
\<close>

theorem sources_list_every_retrieved_document:
  "(body = Payload p \<longrightarrow> p_message p = StrValue m \<longrightarrow> strip m \<noteq> [] \<longrightarrow>
    parse_top_k (p_top_k p) = Inr k \<longrightarrow> search_azure e (strip m) k = Inr docs \<longrightarrow>
      (\<exists>mem.
         snd (snd (chat e body \<sigma>)) =
           [SearchCall (strip m) k,
            CompletionCall (build_hybrid_messages (strip m) docs (Some (memory_messages mem)))] \<and>
         (\<forall>ai. completions_create e
                  (build_hybrid_messages (strip m) docs (Some (memory_messages mem))) = Inr ai \<longrightarrow>
               fst (snd (chat e body \<sigma>)) = ChatOk (uuid4 e) ai (sources_of docs))))
   \<and> (body = Payload p \<longrightarrow> p_message p = StrValue m \<longrightarrow> strip m \<noteq> [] \<longrightarrow>
      ensure_chat_session e (p_session_id p) S = Inr (S1, s0, i) \<longrightarrow>
      parse_top_k (p_top_k p) = Inr k \<longrightarrow> search_azure e (strip m) k = Inr docs \<longrightarrow>
      (\<exists>mem.
         snd (snd (chat_session e body S)) =
           [SearchCall (strip m) k,
            CompletionCall (build_hybrid_messages (strip m) docs (Some (memory_messages mem)))] \<and>
         (\<forall>ai. completions_create e
                  (build_hybrid_messages (strip m) docs (Some (memory_messages mem))) = Inr ai \<longrightarrow>
               fst (snd (chat_session e body S)) = SessionOk i ai (sources_of docs))))
   \<and> (fst (snd (chat e body \<sigma>)) = ChatOk mid ans srcs \<longrightarrow>
      (\<exists>q k' docs' ms. snd (snd (chat e body \<sigma>)) = [SearchCall q k', CompletionCall ms] \<and>
         search_azure e q k' = Inr docs' \<and> completions_create e ms = Inr ans \<and>
         srcs = sources_of docs'))
   \<and> (fst (snd (chat_session e body S)) = SessionOk j ans' srcs' \<longrightarrow>
      (\<exists>q k' docs' ms. snd (snd (chat_session e body S)) = [SearchCall q k', CompletionCall ms] \<and>
         search_azure e q k' = Inr docs' \<and> completions_create e ms = Inr ans' \<and>
         srcs' = sources_of docs'))
   \<and> sources_of docs =
       map (\<lambda>r. \<lparr>entry_doc_id = doc_id r,
                  entry_source = (case meta r ''source'' of None \<Rightarrow> None | Some v \<Rightarrow> v),
                  entry_score = score r\<rparr>) docs
   \<and> length (sources_of docs) = length docs
   \<and> map entry_doc_id (sources_of docs) = map doc_id docs
   \<and> map entry_score (sources_of docs) = map score docs"
proof (intro conjI impI)
  assume "body = Payload p" "p_message p = StrValue m" "strip m \<noteq> []"
    "parse_top_k (p_top_k p) = Inr k" "search_azure e (strip m) k = Inr docs"
  then show "\<exists>mem.
         snd (snd (chat e body \<sigma>)) =
           [SearchCall (strip m) k,
            CompletionCall (build_hybrid_messages (strip m) docs (Some (memory_messages mem)))] \<and>
         (\<forall>ai. completions_create e
                  (build_hybrid_messages (strip m) docs (Some (memory_messages mem))) = Inr ai \<longrightarrow>
               fst (snd (chat e body \<sigma>)) = ChatOk (uuid4 e) ai (sources_of docs))"
    by (rule chat_answered)
next
  assume "body = Payload p" "p_message p = StrValue m" "strip m \<noteq> []"
    "ensure_chat_session e (p_session_id p) S = Inr (S1, s0, i)"
    "parse_top_k (p_top_k p) = Inr k" "search_azure e (strip m) k = Inr docs"
  then show "\<exists>mem.
         snd (snd (chat_session e body S)) =
           [SearchCall (strip m) k,
            CompletionCall (build_hybrid_messages (strip m) docs (Some (memory_messages mem)))] \<and>
         (\<forall>ai. completions_create e
                  (build_hybrid_messages (strip m) docs (Some (memory_messages mem))) = Inr ai \<longrightarrow>
               fst (snd (chat_session e body S)) = SessionOk i ai (sources_of docs))"
    by (rule chat_session_answered)
next
  assume "fst (snd (chat e body \<sigma>)) = ChatOk mid ans srcs"
  then show "\<exists>q k' docs' ms. snd (snd (chat e body \<sigma>)) = [SearchCall q k', CompletionCall ms] \<and>
         search_azure e q k' = Inr docs' \<and> completions_create e ms = Inr ans \<and>
         srcs = sources_of docs'"
    by (rule chat_ok_sources)
next
  assume "fst (snd (chat_session e body S)) = SessionOk j ans' srcs'"
  then show "\<exists>q k' docs' ms.
         snd (snd (chat_session e body S)) = [SearchCall q k', CompletionCall ms] \<and>
         search_azure e q k' = Inr docs' \<and> completions_create e ms = Inr ans' \<and>
         srcs' = sources_of docs'"
    by (rule chat_session_ok_sources)
qed (simp_all add: sources_of_fields, simp add: sources_of_def)

lemma example_sources:
  "sources_of example_docs =
     [\<lparr>entry_doc_id = ''d1'', entry_source = Some ''blob/cupid.pdf'', entry_score = 9 / 10\<rparr>,
      \<lparr>entry_doc_id = ''d2'', entry_source = None, entry_score = 1 / 10\<rparr>]"
  by (simp add: sources_of_def example_docs_def)

theorem sources_list_every_retrieved_document_witness:
  "fst (snd (chat answering_env (message_body ''hi'' IdFalsy) new_flask_session)) =
     ChatOk ''u1'' (Some ''Cupid Limited is a manufacturer'')
       [\<lparr>entry_doc_id = ''d1'', entry_source = Some ''blob/cupid.pdf'', entry_score = 9 / 10\<rparr>,
        \<lparr>entry_doc_id = ''d2'', entry_source = None, entry_score = 1 / 10\<rparr>]
   \<and> fst (snd (chat_session answering_env (message_body ''hi'' IdFalsy) Map.empty)) =
     SessionOk ''u1'' (Some ''Cupid Limited is a manufacturer'')
       [\<lparr>entry_doc_id = ''d1'', entry_source = Some ''blob/cupid.pdf'', entry_score = 9 / 10\<rparr>,
        \<lparr>entry_doc_id = ''d2'', entry_source = None, entry_score = 1 / 10\<rparr>]
   \<and> search_azure answering_env ''hi'' 5 = Inr example_docs
   \<and> length example_docs = 2
   \<and> relevant_docs example_docs = [hd example_docs]"
proof -
  let ?p = "\<lparr>p_message = StrValue ''hi'', p_q = FalsyValue, p_session_id = IdFalsy,
             p_title = FalsyValue, p_top_k = TopKMissing\<rparr>"
  let ?F = "\<lparr>sid = ''u1'', title = TitleStr ''New chat'', created = ''t0'', messages = [],
             sections = [], current_topic = []\<rparr>"
  note t = sources_list_every_retrieved_document
    [where body = "message_body ''hi'' IdFalsy" and p = ?p and m = "''hi''" and k = 5
       and e = answering_env and docs = example_docs and \<sigma> = new_flask_session
       and S = Map.empty]
  have body: "message_body ''hi'' IdFalsy = Payload ?p"
    by (simp add: message_body_def)
  have msg: "p_message ?p = StrValue ''hi''"
    by simp
  have ne: "strip ''hi'' \<noteq> []"
    by (simp add: example_strip)
  have k: "parse_top_k (p_top_k ?p) = Inr 5"
    by (simp add: parse_top_k_def)
  have docs: "search_azure answering_env (strip ''hi'') 5 = Inr example_docs"
    by (simp add: example_strip search_azure_example)
  have en: "ensure_chat_session answering_env (p_session_id ?p) Map.empty =
      Inr (Map.empty(''u1'' \<mapsto> ?F), ?F, ''u1'')"
    by (simp add: ensure_chat_session_def create_session_def answering_env_def Let_def)
  have gen: "completions_create answering_env ms = Inr (Some ''Cupid Limited is a manufacturer'')"
    for ms
    by (simp add: answering_env_def)
  have uid: "uuid4 answering_env = ''u1''"
    by (simp add: answering_env_def)
  from t [THEN conjunct1, rule_format, OF body msg ne k docs] gen
  have w1: "fst (snd (chat answering_env (message_body ''hi'' IdFalsy) new_flask_session)) =
      ChatOk ''u1'' (Some ''Cupid Limited is a manufacturer'') (sources_of example_docs)"
    by (auto simp: uid)
  from t [THEN conjunct2, THEN conjunct1, rule_format, OF body msg ne en k docs] gen
  have w2: "fst (snd (chat_session answering_env (message_body ''hi'' IdFalsy) Map.empty)) =
      SessionOk ''u1'' (Some ''Cupid Limited is a manufacturer'') (sources_of example_docs)"
    by auto
  have w3: "relevant_docs example_docs = [hd example_docs]"
    by (simp add: relevant_docs_def example_docs_def relevance_threshold_def)
  have w4: "length example_docs = 2"
    by (simp add: example_docs_def)
  from w1 w2 w3 w4 docs show ?thesis
    by (simp add: example_sources example_strip)
qed

section \<open>A submit-message request without a known conversation\<close>

lemma fresh_memory: "memory_messages (build_session_memory_sections [] t 5 1500) = []"
  by (simp add: build_session_memory_sections_def memory_messages_def)

lemma ensure_chat_session_fresh:
  assumes "case i0 of IdFalsy \<Rightarrow> True | IdStr j \<Rightarrow> j = [] \<or> S j = None
           | IdHashable \<Rightarrow> True | IdUnhashable \<Rightarrow> False"
  shows "ensure_chat_session e i0 S =
      Inr (S(uuid4 e \<mapsto> \<lparr>sid = uuid4 e, title = TitleStr ''New chat'',
                          created = utcnow_created e,
                          messages = [], sections = [], current_topic = []\<rparr>),
           \<lparr>sid = uuid4 e, title = TitleStr ''New chat'', created = utcnow_created e,
            messages = [], sections = [], current_topic = []\<rparr>, uuid4 e)"
  using assms
  by (auto simp: ensure_chat_session_def create_session_def Let_def split: id_field.splits)

lemma chat_session_on_unknown_id:
  assumes "body = Payload p" and "p_message p = StrValue m" and "strip m = u" and "u \<noteq> []"
    and unknown: "case p_session_id p of IdFalsy \<Rightarrow> True | IdStr j \<Rightarrow> j = [] \<or> S j = None
                  | IdHashable \<Rightarrow> True | IdUnhashable \<Rightarrow> False"
  shows "chat_session e body S =
     (let s2 = \<lparr>sid = uuid4 e, title = TitleStr ''New chat'', created = utcnow_created e,
                 messages = [\<lparr>role = User, content = Some u, msg_meta = Some []\<rparr>],
                 sections = [],
                 current_topic = or_empty (extract_topic u (Some []))\<rparr>;
          ask = (\<lambda>docs. build_hybrid_messages u docs (Some []))
      in case parse_top_k (p_top_k p) of
           Inl err \<Rightarrow> (S(uuid4 e \<mapsto> s2), ServerError (Raised err), [])
         | Inr k \<Rightarrow>
            (case search_azure e u k of
               Inl err \<Rightarrow> (S(uuid4 e \<mapsto> s2), ServerError (Raised err), [SearchCall u k])
             | Inr docs \<Rightarrow>
                (case completions_create e (ask docs) of
                   Inr ai \<Rightarrow>
                     (S(uuid4 e \<mapsto>
                        s2\<lparr>messages := messages s2 @
                              [\<lparr>role = Assistant, content = ai, msg_meta = Some []\<rparr>],
                            sections := [\<lparr>timestamp = utcnow_answered e, query = u,
                                          answer = ai\<rparr>]\<rparr>),
                      SessionOk (uuid4 e) ai (sources_of docs),
                      [SearchCall u k, CompletionCall (ask docs)])
                 | Inl err \<Rightarrow>
                     (S(uuid4 e \<mapsto> s2), ServerError (Raised err),
                      [SearchCall u k, CompletionCall (ask docs)]))))"
  by (simp add: chat_session_nonblank
        [OF assms(1) assms(2) assms(3) assms(4) ensure_chat_session_fresh [OF unknown]]
      Let_def fresh_memory split: sum.splits)

lemma chat_session_unhashable_id:
  assumes "body = Payload p" and "p_message p = StrValue m" and "strip m \<noteq> []"
    and "p_session_id p = IdUnhashable"
  shows "chat_session e body S = (S, ServerError TypeError, [])"
  using assms
  by (simp add: chat_session_def get_json_or_empty_def stripped_text_def
      ensure_chat_session_def Let_def)

text \<open>
  Claim C10, as amended. Take a \<^verbatim>\<open>/chat_session\<close> request whose body is an object with a
  non-blank string as message. If its \<^verbatim>\<open>session_id\<close> is absent or falsy, a string that is
  not a key of the store, or another hashable value, then: the response is never
  Not-Found; a fresh conversation titled \<open>New chat\<close> is stored under the new identifier,
  with the user message as its first message, and no other conversation changes; when
  \<^verbatim>\<open>top_k\<close> is read, the retrieval returns and the generation call returns, the response
  carries the new identifier, the answer and the sources; when \<^verbatim>\<open>top_k\<close> cannot be read,
  the retrieval raises or the generation call fails, the response is the server error,
  which carries no conversation identifier, and the fresh conversation stays in the
  store. If its \<^verbatim>\<open>session_id\<close> is a non-empty array or object, the membership test raises
  \<^verbatim>\<open>TypeError\<close>: the response is the server error and no conversation is created.
\<close>

theorem unknown_session_is_created:
  assumes "body = Payload p" and "p_message p = StrValue m" and "\<not> list_all isspace m"
  shows "((case p_session_id p of IdFalsy \<Rightarrow> True | IdStr j \<Rightarrow> j = [] \<or> S j = None
           | IdHashable \<Rightarrow> True | IdUnhashable \<Rightarrow> False) \<longrightarrow>
       (\<forall>t. fst (snd (chat_session e body S)) \<noteq> NotFound t)
     \<and> (\<exists>s. fst (chat_session e body S) (uuid4 e) = Some s \<and> sid s = uuid4 e \<and>
           title s = TitleStr ''New chat'' \<and> created s = utcnow_created e \<and>
           take 1 (messages s) = [\<lparr>role = User, content = Some (strip m), msg_meta = Some []\<rparr>])
     \<and> (\<forall>j. j \<noteq> uuid4 e \<longrightarrow> fst (chat_session e body S) j = S j)
     \<and> (\<forall>k docs ans. parse_top_k (p_top_k p) = Inr k \<longrightarrow>
           search_azure e (strip m) k = Inr docs \<longrightarrow>
           completions_create e (build_hybrid_messages (strip m) docs (Some [])) = Inr ans \<longrightarrow>
           fst (snd (chat_session e body S)) = SessionOk (uuid4 e) ans (sources_of docs))
     \<and> (\<forall>k docs err. parse_top_k (p_top_k p) = Inr k \<longrightarrow>
           search_azure e (strip m) k = Inr docs \<longrightarrow>
           completions_create e (build_hybrid_messages (strip m) docs (Some [])) = Inl err \<longrightarrow>
           fst (snd (chat_session e body S)) = ServerError (Raised err) \<and>
           response_session_id (fst (snd (chat_session e body S))) = None)
     \<and> (\<forall>k err. parse_top_k (p_top_k p) = Inr k \<longrightarrow>
           search_azure e (strip m) k = Inl err \<longrightarrow>
           fst (snd (chat_session e body S)) = ServerError (Raised err))
     \<and> (\<forall>err. parse_top_k (p_top_k p) = Inl err \<longrightarrow>
           fst (snd (chat_session e body S)) = ServerError (Raised err)))
   \<and> (p_session_id p = IdUnhashable \<longrightarrow>
        chat_session e body S = (S, ServerError TypeError, []))"
proof (intro conjI impI)
  have u: "strip m \<noteq> []"
    using assms(3) by (simp add: strip_Nil_iff)
  {
    assume "p_session_id p = IdUnhashable"
    with assms(1) assms(2) u show "chat_session e body S = (S, ServerError TypeError, [])"
      by (rule chat_session_unhashable_id)
  }
  assume unknown: "case p_session_id p of IdFalsy \<Rightarrow> True | IdStr j \<Rightarrow> j = [] \<or> S j = None
                   | IdHashable \<Rightarrow> True | IdUnhashable \<Rightarrow> False"
  note unf = chat_session_on_unknown_id [OF assms(1) assms(2) refl u unknown, of e]
  show "\<forall>t. fst (snd (chat_session e body S)) \<noteq> NotFound t"
    by (simp add: unf Let_def split: sum.splits)
  show "\<exists>s. fst (chat_session e body S) (uuid4 e) = Some s \<and> sid s = uuid4 e \<and>
           title s = TitleStr ''New chat'' \<and> created s = utcnow_created e \<and>
           take 1 (messages s) = [\<lparr>role = User, content = Some (strip m), msg_meta = Some []\<rparr>]"
    by (simp add: unf Let_def split: sum.splits)
  show "\<forall>j. j \<noteq> uuid4 e \<longrightarrow> fst (chat_session e body S) j = S j"
    by (simp add: unf Let_def split: sum.splits)
  show "\<forall>k docs ans. parse_top_k (p_top_k p) = Inr k \<longrightarrow>
           search_azure e (strip m) k = Inr docs \<longrightarrow>
           completions_create e (build_hybrid_messages (strip m) docs (Some [])) = Inr ans \<longrightarrow>
           fst (snd (chat_session e body S)) = SessionOk (uuid4 e) ans (sources_of docs)"
    by (simp add: unf Let_def)
  show "\<forall>k docs err. parse_top_k (p_top_k p) = Inr k \<longrightarrow>
           search_azure e (strip m) k = Inr docs \<longrightarrow>
           completions_create e (build_hybrid_messages (strip m) docs (Some [])) = Inl err \<longrightarrow>
           fst (snd (chat_session e body S)) = ServerError (Raised err) \<and>
           response_session_id (fst (snd (chat_session e body S))) = None"
    by (simp add: unf Let_def response_session_id_def)
  show "\<forall>k err. parse_top_k (p_top_k p) = Inr k \<longrightarrow>
           search_azure e (strip m) k = Inl err \<longrightarrow>
           fst (snd (chat_session e body S)) = ServerError (Raised err)"
    by (simp add: unf Let_def)
  show "\<forall>err. parse_top_k (p_top_k p) = Inl err \<longrightarrow>
           fst (snd (chat_session e body S)) = ServerError (Raised err)"
    by (simp add: unf Let_def)
qed

theorem unknown_session_is_created_witness:
  "(\<exists>s. fst (chat_session answering_env (message_body ''hi'' (IdStr ''no-such-id'')) Map.empty)
            (uuid4 answering_env) = Some s \<and>
        sid s = uuid4 answering_env \<and> title s = TitleStr ''New chat'' \<and>
        created s = utcnow_created answering_env \<and>
        take 1 (messages s) = [\<lparr>role = User, content = Some ''hi'', msg_meta = Some []\<rparr>])
   \<and> fst (snd (chat_session answering_env (message_body ''hi'' (IdStr ''no-such-id''))
        Map.empty)) =
       SessionOk (uuid4 answering_env) (Some ''Cupid Limited is a manufacturer'')
         (sources_of example_docs)
   \<and> chat_session answering_env (message_body ''hi'' IdUnhashable) Map.empty =
       (Map.empty, ServerError TypeError, [])"
proof -
  let ?p = "\<lambda>i. \<lparr>p_message = StrValue ''hi'', p_q = FalsyValue, p_session_id = i,
                p_title = FalsyValue, p_top_k = TopKMissing\<rparr>"
  have body: "message_body ''hi'' i = Payload (?p i)" for i
    by (simp add: message_body_def)
  have msg: "p_message (?p i) = StrValue ''hi''" for i
    by simp
  have nb: "\<not> list_all isspace ''hi''"
    by code_simp
  note known = unknown_session_is_created
    [where body = "message_body ''hi'' (IdStr ''no-such-id'')"
       and p = "?p (IdStr ''no-such-id'')" and m = "''hi''" and S = Map.empty
       and e = answering_env, OF body msg nb, THEN conjunct1]
  note unhash = unknown_session_is_created
    [where body = "message_body ''hi'' IdUnhashable"
       and p = "?p IdUnhashable" and m = "''hi''" and S = Map.empty
       and e = answering_env, OF body msg nb, THEN conjunct2]
  have un: "case p_session_id (?p (IdStr ''no-such-id'')) of
              IdFalsy \<Rightarrow> True
            | IdStr j \<Rightarrow> j = [] \<or> Map.empty j = (None :: session_container option)
            | IdHashable \<Rightarrow> True | IdUnhashable \<Rightarrow> False"
    by simp
  have k: "parse_top_k (p_top_k (?p (IdStr ''no-such-id''))) = Inr 5"
    by (simp add: parse_top_k_def)
  have docs: "search_azure answering_env (strip ''hi'') 5 = Inr example_docs"
    by (simp add: example_strip search_azure_example)
  have gen: "completions_create answering_env
      (build_hybrid_messages (strip ''hi'') example_docs (Some [])) =
      Inr (Some ''Cupid Limited is a manufacturer'')"
    by (simp add: answering_env_def)
  from known [rule_format, OF un]
  have all: "(\<exists>s. fst (chat_session answering_env (message_body ''hi'' (IdStr ''no-such-id''))
            Map.empty) (uuid4 answering_env) = Some s \<and>
        sid s = uuid4 answering_env \<and> title s = TitleStr ''New chat'' \<and>
        created s = utcnow_created answering_env \<and>
        take 1 (messages s) = [\<lparr>role = User, content = Some (strip ''hi''), msg_meta = Some []\<rparr>])"
    and ok: "\<forall>k docs ans. parse_top_k (p_top_k (?p (IdStr ''no-such-id''))) = Inr k \<longrightarrow>
           search_azure answering_env (strip ''hi'') k = Inr docs \<longrightarrow>
           completions_create answering_env
             (build_hybrid_messages (strip ''hi'') docs (Some [])) = Inr ans \<longrightarrow>
           fst (snd (chat_session answering_env (message_body ''hi'' (IdStr ''no-such-id''))
             Map.empty)) = SessionOk (uuid4 answering_env) ans (sources_of docs)"
    by blast+
  from ok [rule_format, OF k docs gen]
  have w2: "fst (snd (chat_session answering_env (message_body ''hi'' (IdStr ''no-such-id''))
        Map.empty)) =
       SessionOk (uuid4 answering_env) (Some ''Cupid Limited is a manufacturer'')
         (sources_of example_docs)" .
  from unhash
  have w3: "chat_session answering_env (message_body ''hi'' IdUnhashable) Map.empty =
       (Map.empty, ServerError TypeError, [])"
    by simp
  from all w2 w3 show ?thesis
    by (simp add: example_strip)
qed

text \<open>
  Claim C10 as stated fails when the generation call fails: the fresh conversation has
  been created and holds the message, but the response is the server error and carries
  no conversation identifier.
\<close>

theorem unknown_session_failure_counterexample:
  "fst (snd (chat_session failing_env (message_body ''hi'' IdFalsy) Map.empty)) =
     ServerError (Raised ''timeout'')
   \<and> response_session_id
       (fst (snd (chat_session failing_env (message_body ''hi'' IdFalsy) Map.empty))) = None
   \<and> fst (chat_session failing_env (message_body ''hi'' IdFalsy) Map.empty) ''u1'' =
       Some \<lparr>sid = ''u1'', title = TitleStr ''New chat'', created = ''t0'',
              messages = [\<lparr>role = User, content = Some ''hi'', msg_meta = Some []\<rparr>],
              sections = [], current_topic = ''hi''\<rparr>"
  by code_simp

end
